theory Spec2Isabelle
  imports Complex_Main
begin

section \<open>JavaScript values and strings\<close>

text \<open>
  The services are written in TypeScript; their parameters are declared \<open>string\<close>, and the
  test-suite also passes \<open>null\<close> and \<open>undefined\<close>.  A parameter is therefore one of
  three values.  A string is a list of code units; the model's alphabet is the 8-bit
  \<^typ>\<open>char\<close>.  Its 256 characters stand for the code units U+0000 .. U+00FF, with one
  exception: the character with code 0x95 stands for U+2022, the bullet that the list
  pattern of the todo extraction names, in place of the control character U+0095.  Both
  are without case, no white space, no digit, no word character and no line terminator,
  so every character test below reads the same for the two.
\<close>

datatype jsval = JSNull | JSUndefined | JSString string

datatype error = TypeError

text \<open>
  Case mapping on the alphabet.  The upper-case letters are U+0041 .. U+005A and
  U+00C0 .. U+00DE without U+00D7; each has bit 5 clear, and its lower-case form is the
  same code with bit 5 set (the code plus 32).
\<close>

definition isUpper :: "char \<Rightarrow> bool" where
  "isUpper c = (let n = (of_char c :: int) in
     (65 \<le> n \<and> n \<le> 90) \<or> (192 \<le> n \<and> n \<le> 222 \<and> n \<noteq> 215))"

definition isLower :: "char \<Rightarrow> bool" where
  "isLower c = (let n = (of_char c :: int) in
     (97 \<le> n \<and> n \<le> 122) \<or> (224 \<le> n \<and> n \<le> 254 \<and> n \<noteq> 247))"

definition withBit5 :: "bool \<Rightarrow> char \<Rightarrow> char" where
  "withBit5 v c = (case c of Char b0 b1 b2 b3 b4 b5 b6 b7 \<Rightarrow> Char b0 b1 b2 b3 b4 v b6 b7)"

definition toLowerCase_char :: "char \<Rightarrow> char" where
  "toLowerCase_char c = (if isUpper c then withBit5 True c else c)"

definition toLowerCase :: "string \<Rightarrow> string" where
  "toLowerCase s = map toLowerCase_char s"

text \<open>
  \<open>String.prototype.toUpperCase\<close> of a one-character string.  U+00DF (sharp s) has the
  two-character upper-case form \<open>SS\<close>.  U+00FF and U+00B5 have single-character
  upper-case forms outside the 8-bit alphabet (U+0178, U+039C); the model leaves these two
  unchanged, which keeps the length the program produces.
\<close>

definition toUpperCase_char :: "char \<Rightarrow> string" where
  "toUpperCase_char c =
     (if (of_char c :: int) = 223 then ''SS''
      else if isLower c then [withBit5 False c]
      else [c])"

text \<open>\<open>x.toLowerCase()\<close> on a parameter: a property read on \<open>null\<close>/\<open>undefined\<close> throws.\<close>

definition toLowerCase_js :: "jsval \<Rightarrow> error + string" where
  "toLowerCase_js v = (case v of JSString s \<Rightarrow> Inr (toLowerCase s) | _ \<Rightarrow> Inl TypeError)"

text \<open>String conversion inside a template literal and under \<open>+\<close>: never throws.\<close>

definition toString_js :: "jsval \<Rightarrow> string" where
  "toString_js v = (case v of JSString s \<Rightarrow> s | JSNull \<Rightarrow> ''null'' | JSUndefined \<Rightarrow> ''undefined'')"

fun startsWith :: "string \<Rightarrow> string \<Rightarrow> bool" where
  "startsWith s [] = True"
| "startsWith [] (p # ps) = False"
| "startsWith (c # cs) (p # ps) = (c = p \<and> startsWith cs ps)"

text \<open>\<open>s.includes(p)\<close>: \<open>p\<close> occurs in \<open>s\<close> as a contiguous substring.\<close>

fun includes_js :: "string \<Rightarrow> string \<Rightarrow> bool" where
  "includes_js [] p = (p = [])"
| "includes_js (c # cs) p = (startsWith (c # cs) p \<or> includes_js cs p)"

text \<open>\<open>xs.join(sep)\<close>\<close>

fun join :: "string \<Rightarrow> string list \<Rightarrow> string" where
  "join sep [] = []"
| "join sep [x] = x"
| "join sep (x # y # ys) = x @ sep @ join sep (y # ys)"

text \<open>\<open>s.trim()\<close> and the regular-expression class \<open>\s\<close> share one set of characters.\<close>

definition isSpace :: "char \<Rightarrow> bool" where
  "isSpace c = (let n = (of_char c :: int) in (9 \<le> n \<and> n \<le> 13) \<or> n = 32 \<or> n = 160)"

definition isDigit :: "char \<Rightarrow> bool" where
  "isDigit c = (let n = (of_char c :: int) in 48 \<le> n \<and> n \<le> 57)"

definition isWordChar :: "char \<Rightarrow> bool" where
  "isWordChar c = (let n = (of_char c :: int) in
     (48 \<le> n \<and> n \<le> 57) \<or> (65 \<le> n \<and> n \<le> 90) \<or> n = 95 \<or> (97 \<le> n \<and> n \<le> 122))"

definition isLineTerminator :: "char \<Rightarrow> bool" where
  "isLineTerminator c = (let n = (of_char c :: int) in n = 10 \<or> n = 13)"

definition trim :: "string \<Rightarrow> string" where
  "trim s = rev (dropWhile isSpace (rev (dropWhile isSpace s)))"

definition dq :: char where
  "dq = CHR 0x22"

definition sq :: char where
  "sq = CHR 0x27"

definition bullet :: char where
  "bullet = CHR 0x95"

definition LF :: char where
  "LF = CHR 0x0A"

definition CR :: char where
  "CR = CHR 0x0D"

section \<open>Regular expressions\<close>

text \<open>
  The services match text with JavaScript regular expressions.  Their syntax trees are
  transcribed below, and \<open>m\<close> is the backtracking matcher of ECMAScript for the
  constructs they use: sequence, ordered alternation, optional groups, greedy and lazy
  repetition of a character class, one numbered capture group, \<open>^\<close> and \<open>\b\<close>.
  The flag \<open>ci\<close> is the \<open>i\<close> flag.  The matcher runs a list of pending items (the
  continuation) against the rest of the input and returns the rest after the match
  together with the captures; \<open>prev\<close> is the character before the current position.
\<close>

datatype cls = Dot | Space | Digit | Chr char | Union cls cls | NotIn string

datatype rx = Cls cls | Lit string | Seq rx rx | Alt rx rx | Opt rx
  | Rep cls nat "nat option" bool | Cap nat rx | Bol | WordB

datatype kont = KR rx | KCapEnd nat string

type_synonym caps = "(nat \<times> string) list"

definition chr_match :: "bool \<Rightarrow> char \<Rightarrow> char \<Rightarrow> bool" where
  "chr_match ci p x = (if ci then toLowerCase_char p = toLowerCase_char x else p = x)"

fun cls_match :: "bool \<Rightarrow> cls \<Rightarrow> char \<Rightarrow> bool" where
  "cls_match ci Dot x = (\<not> isLineTerminator x)"
| "cls_match ci Space x = isSpace x"
| "cls_match ci Digit x = isDigit x"
| "cls_match ci (Chr p) x = chr_match ci p x"
| "cls_match ci (Union a b) x = (cls_match ci a x \<or> cls_match ci b x)"
| "cls_match ci (NotIn ps) x = (\<not> List.member ps x)"

fun rx_weight :: "rx \<Rightarrow> nat" where
  "rx_weight (Seq a b) = rx_weight a + rx_weight b + 1"
| "rx_weight (Alt a b) = rx_weight a + rx_weight b + 1"
| "rx_weight (Opt a) = rx_weight a + 1"
| "rx_weight (Cap n a) = rx_weight a + 2"
| "rx_weight r = 1"

fun wk :: "kont \<Rightarrow> nat" where
  "wk (KR r) = rx_weight r"
| "wk (KCapEnd n s) = 1"

fun isWordOpt :: "char option \<Rightarrow> bool" where
  "isWordOpt None = False"
| "isWordOpt (Some c) = isWordChar c"

fun headOpt :: "string \<Rightarrow> char option" where
  "headOpt [] = None"
| "headOpt (x # xs) = Some x"

fun decr :: "nat option \<Rightarrow> nat option" where
  "decr None = None"
| "decr (Some n) = Some (n - 1)"

fun exhausted :: "nat option \<Rightarrow> bool" where
  "exhausted None = False"
| "exhausted (Some n) = (n = 0)"

function (sequential) m ::
  "bool \<Rightarrow> kont list \<Rightarrow> char option \<Rightarrow> string \<Rightarrow> caps \<Rightarrow> (string \<times> caps) option" where
  "m ci [] prev s caps = Some (s, caps)"
| "m ci (KCapEnd n start # k) prev s caps =
     m ci k prev s ((n, take (length start - length s) start) # caps)"
| "m ci (KR (Cls c) # k) prev [] caps = None"
| "m ci (KR (Cls c) # k) prev (x # xs) caps =
     (if cls_match ci c x then m ci k (Some x) xs caps else None)"
| "m ci (KR (Lit []) # k) prev s caps = m ci k prev s caps"
| "m ci (KR (Lit (p # ps)) # k) prev [] caps = None"
| "m ci (KR (Lit (p # ps)) # k) prev (x # xs) caps =
     (if chr_match ci p x then m ci (KR (Lit ps) # k) (Some x) xs caps else None)"
| "m ci (KR (Seq a b) # k) prev s caps = m ci (KR a # KR b # k) prev s caps"
| "m ci (KR (Alt a b) # k) prev s caps =
     (case m ci (KR a # k) prev s caps of
        Some r \<Rightarrow> Some r
      | None \<Rightarrow> m ci (KR b # k) prev s caps)"
| "m ci (KR (Opt a) # k) prev s caps =
     (case m ci (KR a # k) prev s caps of
        Some r \<Rightarrow> Some r
      | None \<Rightarrow> m ci k prev s caps)"
| "m ci (KR (Rep c (Suc mn) mx g) # k) prev [] caps = None"
| "m ci (KR (Rep c (Suc mn) mx g) # k) prev (x # xs) caps =
     (if exhausted mx then None
      else if cls_match ci c x
      then m ci (KR (Rep c mn (decr mx) g) # k) (Some x) xs caps else None)"
| "m ci (KR (Rep c 0 mx g) # k) prev [] caps = m ci k prev [] caps"
| "m ci (KR (Rep c 0 mx True) # k) prev (x # xs) caps =
     (if exhausted mx then m ci k prev (x # xs) caps
      else if cls_match ci c x
      then (case m ci (KR (Rep c 0 (decr mx) True) # k) (Some x) xs caps of
              Some r \<Rightarrow> Some r
            | None \<Rightarrow> m ci k prev (x # xs) caps)
      else m ci k prev (x # xs) caps)"
| "m ci (KR (Rep c 0 mx False) # k) prev (x # xs) caps =
     (case m ci k prev (x # xs) caps of
        Some r \<Rightarrow> Some r
      | None \<Rightarrow> (if exhausted mx then None
                 else if cls_match ci c x
                 then m ci (KR (Rep c 0 (decr mx) False) # k) (Some x) xs caps else None))"
| "m ci (KR (Cap n a) # k) prev s caps = m ci (KR a # KCapEnd n s # k) prev s caps"
| "m ci (KR Bol # k) prev s caps = (if prev = None then m ci k prev s caps else None)"
| "m ci (KR WordB # k) prev s caps =
     (if isWordOpt prev = isWordOpt (headOpt s) then None else m ci k prev s caps)"
  by pat_completeness auto
termination
  by (relation "measures [\<lambda>(ci, k, prev, s, caps). length s,
                           \<lambda>(ci, k, prev, s, caps). sum_list (map wk k)]") auto

lemma m_suffix: "m ci k prev s caps = Some (rest, caps') \<Longrightarrow> length rest \<le> length s"
proof (induction ci k prev s caps arbitrary: rest caps' rule: m.induct)
  case (1 ci prev s caps)
  then show ?case by simp
next
  case (2 ci n start k prev s caps)
  from "2.prems" have "m ci k prev s ((n, take (length start - length s) start) # caps) = Some (rest, caps')"
    by simp
  from "2.IH" [OF this] show ?case .
next
  case (3 ci c k prev caps)
  then show ?case by simp
next
  case (4 ci c k prev x xs caps)
  from "4.prems" have cm: "cls_match ci c x" and "m ci k (Some x) xs caps = Some (rest, caps')"
    by (simp_all split: if_splits)
  from "4.IH" [OF this] show ?case by simp
next
  case (5 ci k prev s caps)
  from "5.prems" have "m ci k prev s caps = Some (rest, caps')" by simp
  from "5.IH" [OF this] show ?case .
next
  case (6 ci p ps k prev caps)
  then show ?case by simp
next
  case (7 ci p ps k prev x xs caps)
  from "7.prems" have cm: "chr_match ci p x" and "m ci (KR (Lit ps) # k) (Some x) xs caps = Some (rest, caps')"
    by (simp_all split: if_splits)
  from "7.IH" [OF this] show ?case by simp
next
  case (8 ci a b k prev s caps)
  from "8.prems" have "m ci (KR a # KR b # k) prev s caps = Some (rest, caps')" by simp
  from "8.IH" [OF this] show ?case .
next
  case (9 ci a b k prev s caps)
  show ?case
  proof (cases "m ci (KR a # k) prev s caps")
    case None
    with "9.prems" have "m ci (KR b # k) prev s caps = Some (rest, caps')" by simp
    from "9.IH"(2) [OF None this] show ?thesis .
  next
    case (Some r)
    with "9.prems" have "m ci (KR a # k) prev s caps = Some (rest, caps')" by simp
    from "9.IH"(1) [OF this] show ?thesis .
  qed
next
  case (10 ci a k prev s caps)
  show ?case
  proof (cases "m ci (KR a # k) prev s caps")
    case None
    with "10.prems" have "m ci k prev s caps = Some (rest, caps')" by simp
    from "10.IH"(2) [OF None this] show ?thesis .
  next
    case (Some r)
    with "10.prems" have "m ci (KR a # k) prev s caps = Some (rest, caps')" by simp
    from "10.IH"(1) [OF this] show ?thesis .
  qed
next
  case (11 ci c mn mx g k prev caps)
  then show ?case by simp
next
  case (12 ci c mn mx g k prev x xs caps)
  from "12.prems" have ne: "\<not> exhausted mx" and cm: "cls_match ci c x"
    and "m ci (KR (Rep c mn (decr mx) g) # k) (Some x) xs caps = Some (rest, caps')"
    by (simp_all split: if_splits)
  from "12.IH" [OF this] show ?case by simp
next
  case (13 ci c mx g k prev caps)
  from "13.prems" have "m ci k prev [] caps = Some (rest, caps')" by simp
  from "13.IH" [OF this] show ?case .
next
  case (14 ci c mx k prev x xs caps)
  show ?case
  proof (cases "exhausted mx")
    case True
    with "14.prems" have "m ci k prev (x # xs) caps = Some (rest, caps')" by simp
    from "14.IH"(1) [OF True this] show ?thesis .
  next
    case ne: False
    show ?thesis
    proof (cases "cls_match ci c x")
      case False
      with ne "14.prems" have "m ci k prev (x # xs) caps = Some (rest, caps')" by simp
      from "14.IH"(4) [OF ne False this] show ?thesis .
    next
      case cm: True
      show ?thesis
      proof (cases "m ci (KR (Rep c 0 (decr mx) True) # k) (Some x) xs caps")
        case None
        with ne cm "14.prems" have "m ci k prev (x # xs) caps = Some (rest, caps')" by simp
        from "14.IH"(3) [OF ne cm None this] show ?thesis .
      next
        case (Some a)
        with ne cm "14.prems"
        have "m ci (KR (Rep c 0 (decr mx) True) # k) (Some x) xs caps = Some (rest, caps')"
          by simp
        from "14.IH"(2) [OF ne cm this] show ?thesis by simp
      qed
    qed
  qed
next
  case (15 ci c mx k prev x xs caps)
  show ?case
  proof (cases "m ci k prev (x # xs) caps")
    case (Some a)
    with "15.prems" have "m ci k prev (x # xs) caps = Some (rest, caps')" by simp
    from "15.IH"(1) [OF this] show ?thesis .
  next
    case None
    with "15.prems" have ne: "\<not> exhausted mx" and cm: "cls_match ci c x"
      and "m ci (KR (Rep c 0 (decr mx) False) # k) (Some x) xs caps = Some (rest, caps')"
      by (simp_all split: if_splits)
    from "15.IH"(2) [OF None ne cm this(3)] show ?thesis by simp
  qed
next
  case (16 ci n a k prev s caps)
  from "16.prems" have "m ci (KR a # KCapEnd n s # k) prev s caps = Some (rest, caps')" by simp
  from "16.IH" [OF this] show ?case .
next
  case (17 ci k prev s caps)
  from "17.prems" have "prev = None" and "m ci k prev s caps = Some (rest, caps')"
    by (simp_all split: if_splits)
  from "17.IH" [OF this] show ?case .
next
  case (18 ci k prev s caps)
  from "18.prems" have "isWordOpt prev \<noteq> isWordOpt (headOpt s)"
    and "m ci k prev s caps = Some (rest, caps')"
    by (simp_all split: if_splits)
  from "18.IH" [OF this] show ?case .
qed

text \<open>
  The leftmost match at or after the current position: \<open>(i, matched, rest, caps)\<close> with
  \<open>i\<close> the number of characters skipped before the match.
\<close>

fun rx_search ::
  "bool \<Rightarrow> rx \<Rightarrow> char option \<Rightarrow> string \<Rightarrow> (nat \<times> string \<times> string \<times> caps) option" where
  "rx_search ci r prev [] =
     (case m ci [KR r] prev [] [] of
        Some (rest, caps) \<Rightarrow> Some (0, [], rest, caps)
      | None \<Rightarrow> None)"
| "rx_search ci r prev (x # xs) =
     (case m ci [KR r] prev (x # xs) [] of
        Some (rest, caps) \<Rightarrow> Some (0, take (length (x # xs) - length rest) (x # xs), rest, caps)
      | None \<Rightarrow>
          (case rx_search ci r (Some x) xs of
             Some (i, mt, rest, caps) \<Rightarrow> Some (Suc i, mt, rest, caps)
           | None \<Rightarrow> None))"

lemma rx_search_suffix:
  "rx_search ci r prev s = Some (i, mt, rest, caps) \<Longrightarrow> length rest + length mt \<le> length s"
proof (induction s arbitrary: prev i)
  case Nil
  then show ?case using m_suffix [of ci "[KR r]" prev "[]" "[]"]
    by (auto split: option.splits)
next
  case (Cons x xs)
  show ?case
  proof (cases "m ci [KR r] prev (x # xs) []")
    case None
    with Cons.prems obtain j where "rx_search ci r (Some x) xs = Some (j, mt, rest, caps)"
      by (auto split: option.splits)
    from Cons.IH [OF this] show ?thesis by simp
  next
    case (Some a)
    with Cons.prems m_suffix [of ci "[KR r]" prev "x # xs" "[]"] show ?thesis
      by (cases a) auto
  qed
qed

text \<open>\<open>regex.test(s)\<close> for a regular expression without the \<open>g\<close> flag.\<close>

definition rx_test :: "bool \<Rightarrow> rx \<Rightarrow> string \<Rightarrow> bool" where
  "rx_test ci r s = (case rx_search ci r None s of Some x \<Rightarrow> True | None \<Rightarrow> False)"

text \<open>\<open>s.replace(regex, '')\<close> without the \<open>g\<close> flag: the first match is removed.\<close>

definition rx_remove_first :: "bool \<Rightarrow> rx \<Rightarrow> string \<Rightarrow> string" where
  "rx_remove_first ci r s =
     (case rx_search ci r None s of
        Some (i, mt, rest, caps) \<Rightarrow> take i s @ rest
      | None \<Rightarrow> s)"

text \<open>
  \<open>s.match(regex)\<close> with the \<open>g\<close> flag: every match, left to right, each search starting
  where the previous match ended (one character further after an empty match).
\<close>

function rx_match_all :: "bool \<Rightarrow> rx \<Rightarrow> char option \<Rightarrow> string \<Rightarrow> string list" where
  "rx_match_all ci r prev s =
     (case rx_search ci r prev s of
        None \<Rightarrow> []
      | Some (i, mt, rest, caps) \<Rightarrow>
          (if mt = [] then (case rest of [] \<Rightarrow> [mt] | x # xs \<Rightarrow> mt # rx_match_all ci r (Some x) xs)
           else mt # rx_match_all ci r (Some (last mt)) rest))"
  by pat_completeness auto
termination
proof (relation "measure (\<lambda>(ci, r, prev, s). length s)", goal_cases)
  case 1
  show ?case by simp
next
  case (2 ci r prev s x2 i y mt ya rest caps x21 x22)
  then have "rx_search ci r prev s = Some (i, mt, rest, caps)" by simp
  from rx_search_suffix [OF this] 2 show ?case by simp
next
  case (3 ci r prev s x2 i y mt ya rest caps)
  then have "rx_search ci r prev s = Some (i, mt, rest, caps)" by simp
  from rx_search_suffix [OF this] 3 show ?case by (cases mt) simp_all
qed

declare rx_match_all.simps [simp del]

text \<open>The first match of a regular expression without the \<open>g\<close> flag, with its captures.\<close>

definition rx_match_first :: "bool \<Rightarrow> rx \<Rightarrow> string \<Rightarrow> (string \<times> caps) option" where
  "rx_match_first ci r s =
     (case rx_search ci r None s of
        Some (i, mt, rest, caps) \<Rightarrow> Some (mt, caps)
      | None \<Rightarrow> None)"

text \<open>
  A regular expression object with the \<open>g\<close> and \<open>i\<close> flags: \<open>exec\<close> starts at
  \<open>lastIndex\<close>, stores the end of the match there, and resets it to 0 when nothing matches.
\<close>

record RegExp =
  source :: rx
  lastIndex :: nat

definition prevAt :: "string \<Rightarrow> nat \<Rightarrow> char option" where
  "prevAt s i = (if i = 0 then None else Some (s ! (i - 1)))"

definition exec :: "RegExp \<Rightarrow> string \<Rightarrow> (string \<times> caps) option \<times> RegExp" where
  "exec re s =
     (if lastIndex re > length s then (None, re\<lparr>lastIndex := 0\<rparr>)
      else (case rx_search True (source re) (prevAt s (lastIndex re)) (drop (lastIndex re) s) of
              None \<Rightarrow> (None, re\<lparr>lastIndex := 0\<rparr>)
            | Some (i, mt, rest, caps) \<Rightarrow>
                (Some (mt, caps), re\<lparr>lastIndex := lastIndex re + i + length mt\<rparr>)))"

text \<open>Helpers to transcribe a sequence and an alternation of several parts.\<close>

fun seqs :: "rx \<Rightarrow> rx list \<Rightarrow> rx" where
  "seqs r [] = r"
| "seqs r (x # xs) = Seq r (seqs x xs)"

fun alts :: "rx \<Rightarrow> rx list \<Rightarrow> rx" where
  "alts r [] = r"
| "alts r (x # xs) = Alt r (alts x xs)"

definition spaces1 :: rx where
  "spaces1 = Rep Space 1 None True"

definition digits1 :: rx where
  "digits1 = Rep Digit 1 None True"

section \<open>Dates\<close>

text \<open>
  A \<open>Date\<close> is a local calendar day (counted from 1 January 1970, a Thursday) and the
  time of day in milliseconds.  \<open>d.setDate(d.getDate() + n)\<close> moves the day by \<open>n\<close> and
  keeps the time of day.  The clock (\<open>new Date()\<close>) and the runtime's parser for date
  strings (\<open>new Date(string)\<close>) are not part of the repository; they are the two fields
  of the environment.  One call of the service reads one value of the clock.
\<close>

record JSDate =
  dayNumber :: int
  msOfDay :: nat

record Env =
  now :: JSDate
  parseDate :: "string \<Rightarrow> JSDate option"

definition getDay :: "JSDate \<Rightarrow> int" where
  "getDay d = (dayNumber d + 4) mod 7"

definition addDays :: "JSDate \<Rightarrow> int \<Rightarrow> JSDate" where
  "addDays d n = d\<lparr>dayNumber := dayNumber d + n\<rparr>"

section \<open>Types of the services (types/categorization.ts)\<close>

text \<open>
  A JavaScript number that holds a score is an integer; one that holds a confidence is
  modelled as a rational.  The code compares confidences that are decimal literals and
  divides an integer score by 10, which the rationals do exactly.

  Field names follow the source.  Where two interfaces share a field name the later
  record carries a suffix: \<open>_n\<close> (NewsletterDetectionResult), \<open>_t\<close> (TodoItem),
  \<open>_x\<close> (TodoExtractionResult), \<open>_a\<close> (ActionPattern).
\<close>

datatype EmailCategory =
  Newsletter | Social | Promotional | Work | Personal | Finance | Travel
  | Shopping | Support | Spam | Important | Todo | Other

datatype TodoPriority = Low | Medium | High | Urgent

datatype TodoStatus = Pending | InProgress | Completed | Cancelled | Snoozed

record CategoryPatterns =
  keywords_js :: "string list"
  senderPatterns :: "string list"
  subjectPatterns :: "string list"
  bodyPatterns :: "string list"
  domainPatterns :: "string list"

record EmailClassificationResult =
  category :: EmailCategory
  subcategories :: "EmailCategory list"
  confidence :: rat
  isNewsletter :: bool
  priority :: "TodoPriority option"
  reasoning :: string

datatype Reputation = Trusted | Suspicious | UnknownReputation

datatype Frequency = Daily | Weekly | Monthly | Irregular | UnknownFrequency

record NewsletterDetectionResult =
  isNewsletter_n :: bool
  confidence_n :: rat
  unsubscribeLinks :: "string list"
  senderReputation :: Reputation
  frequency :: Frequency

record TodoItem =
  title :: string
  description :: string
  priority_t :: TodoPriority
  status :: TodoStatus
  dueDate :: "JSDate option"
  confidence_t :: rat
  context_t :: string
  actionKeywords :: "string list"

record TodoExtractionResult =
  todos :: "TodoItem list"
  hasTodos :: bool
  confidence_x :: rat
  reasoning_x :: string

record ActionPattern =
  keywords_a :: "string list"
  priority_a :: TodoPriority
  confidence_a :: rat

record AIProcessingConfig =
  enableCategorization :: bool
  enableTodoExtraction :: bool
  enableNewsletterDetection :: bool
  maxTokensPerEmail :: nat
  confidenceThreshold :: rat
  batchSize :: nat

section \<open>EmailCategorizationService: the pattern catalog\<close>

text \<open>\<open>initializeCategoryPatterns\<close>: the object literal, one entry per category.\<close>

fun categoryPatterns :: "EmailCategory \<Rightarrow> CategoryPatterns" where
  "categoryPatterns Newsletter = \<lparr>
     keywords_js = [''newsletter'', ''unsubscribe'', ''digest'', ''weekly'', ''monthly'', ''edition''],
     senderPatterns = [''newsletter@'', ''news@'', ''updates@'', ''marketing@''],
     subjectPatterns = [''newsletter'', ''weekly digest'', ''monthly update'', ''edition''],
     bodyPatterns = [''unsubscribe'', ''manage preferences'', ''view in browser'', ''list-unsubscribe''],
     domainPatterns = [''mailchimp.com'', ''constantcontact.com'', ''aweber.com''] \<rparr>"
| "categoryPatterns Social = \<lparr>
     keywords_js = [''notification'', ''friend'', ''like'', ''comment'', ''share'', ''follow''],
     senderPatterns = [''notification@'', ''noreply@facebook'', ''noreply@twitter'', ''noreply@linkedin''],
     subjectPatterns = [''liked your'', ''commented on'', ''friend request'', ''mentioned you''],
     bodyPatterns = [''social network'', ''your profile'', ''activity on''],
     domainPatterns = [''facebook.com'', ''twitter.com'', ''linkedin.com'', ''instagram.com''] \<rparr>"
| "categoryPatterns Promotional = \<lparr>
     keywords_js = [''sale'', ''discount'', ''offer'', ''deal'', ''promotion'', ''coupon'', ''save''],
     senderPatterns = [''promo@'', ''deals@'', ''offers@'', ''marketing@''],
     subjectPatterns = [''% off'', ''sale'', ''discount'', ''limited time'', ''expires''],
     bodyPatterns = [''promotional'', ''limited time'', ''act now'', ''shop now''],
     domainPatterns = [''amazon.com'', ''ebay.com'', ''groupon.com''] \<rparr>"
| "categoryPatterns Work = \<lparr>
     keywords_js = [''meeting'', ''deadline'', ''project'', ''report'', ''team'', ''urgent''],
     senderPatterns = [''hr@'', ''team@'', ''admin@''],
     subjectPatterns = [''re:'', ''fwd:'', ''meeting'', ''project'', ''urgent''],
     bodyPatterns = [''deadline'', ''meeting'', ''project'', ''deliverable''],
     domainPatterns = [] \<rparr>"
| "categoryPatterns Personal = \<lparr>
     keywords_js = [''family'', ''friend'', ''birthday'', ''invitation'', ''personal''],
     senderPatterns = [],
     subjectPatterns = [''birthday'', ''invitation'', ''personal''],
     bodyPatterns = [''family'', ''friend'', ''personal''],
     domainPatterns = [''gmail.com'', ''yahoo.com'', ''hotmail.com''] \<rparr>"
| "categoryPatterns Finance = \<lparr>
     keywords_js = [''bank'', ''credit'', ''payment'', ''invoice'', ''statement'', ''transaction''],
     senderPatterns = [''bank@'', ''billing@'', ''finance@'', ''accounting@''],
     subjectPatterns = [''statement'', ''payment'', ''invoice'', ''transaction''],
     bodyPatterns = [''account balance'', ''payment due'', ''financial''],
     domainPatterns = [''paypal.com'', ''stripe.com'', ''bank.''] \<rparr>"
| "categoryPatterns Travel = \<lparr>
     keywords_js = [''flight'', ''hotel'', ''booking'', ''reservation'', ''itinerary'', ''travel''],
     senderPatterns = [''booking@'', ''travel@'', ''reservations@''],
     subjectPatterns = [''booking confirmation'', ''itinerary'', ''flight''],
     bodyPatterns = [''reservation'', ''check-in'', ''travel''],
     domainPatterns = [''booking.com'', ''expedia.com'', ''airlines.''] \<rparr>"
| "categoryPatterns Shopping = \<lparr>
     keywords_js = [''order'', ''shipping'', ''delivery'', ''package'', ''tracking''],
     senderPatterns = [''orders@'', ''shipping@'', ''delivery@''],
     subjectPatterns = [''order confirmation'', ''shipped'', ''delivery''],
     bodyPatterns = [''tracking number'', ''shipped'', ''delivery''],
     domainPatterns = [''amazon.com'', ''ebay.com'', ''shopify.''] \<rparr>"
| "categoryPatterns Support = \<lparr>
     keywords_js = [''support'', ''ticket'', ''help'', ''issue'', ''problem'', ''assistance''],
     senderPatterns = [''support@'', ''help@'', ''noreply@''],
     subjectPatterns = [''ticket'', ''support'', ''help''],
     bodyPatterns = [''support ticket'', ''assistance'', ''help''],
     domainPatterns = [''zendesk.com'', ''freshdesk.com''] \<rparr>"
| "categoryPatterns Spam = \<lparr>
     keywords_js = [''viagra'', ''lottery'', ''winner'', ''congratulations'', ''million''],
     senderPatterns = [],
     subjectPatterns = [''congratulations'', ''winner'', ''lottery''],
     bodyPatterns = [''click here'', ''limited time'', ''act now''],
     domainPatterns = [] \<rparr>"
| "categoryPatterns Important = \<lparr>
     keywords_js = [''urgent'', ''important'', ''asap'', ''emergency'', ''critical''],
     senderPatterns = [''urgent@'', ''emergency@''],
     subjectPatterns = [''urgent'', ''important'', ''asap'', ''emergency''],
     bodyPatterns = [''urgent'', ''important'', ''critical''],
     domainPatterns = [] \<rparr>"
| "categoryPatterns Todo = \<lparr>
     keywords_js = [''action required'', ''please'', ''need'', ''request'', ''follow up''],
     senderPatterns = [],
     subjectPatterns = [''action required'', ''please review'', ''follow up''],
     bodyPatterns = [''action required'', ''please'', ''need to'', ''follow up''],
     domainPatterns = [] \<rparr>"
| "categoryPatterns Other = \<lparr>
     keywords_js = [], senderPatterns = [], subjectPatterns = [], bodyPatterns = [],
     domainPatterns = [] \<rparr>"

text \<open>The key order of the object literal, which \<open>Object.keys\<close>/\<open>Object.entries\<close> follow.\<close>

definition categoryKeys :: "EmailCategory list" where
  "categoryKeys = [Newsletter, Social, Promotional, Work, Personal, Finance, Travel,
                   Shopping, Support, Spam, Important, Todo, Other]"

section \<open>calculateCategoryScore\<close>

text \<open>
  Each \<open>forEach\<close> is a left-to-right loop over the pattern list that updates the local
  variable \<open>score\<close>; the loops run one after the other on the same variable.
\<close>

definition keywordStep :: "string \<Rightarrow> string \<Rightarrow> int \<Rightarrow> string \<Rightarrow> int" where
  "keywordStep subject body score keyword =
     (let score1 = (if includes_js body keyword then score + 2 else score)
      in if includes_js subject keyword then score1 + 3 else score1)"

definition patternStep :: "string \<Rightarrow> int \<Rightarrow> int \<Rightarrow> string \<Rightarrow> int" where
  "patternStep text weight score pattern =
     (if includes_js text pattern then score + weight else score)"

definition calculateCategoryScore :: "CategoryPatterns \<Rightarrow> string \<Rightarrow> string \<Rightarrow> string \<Rightarrow> int" where
  "calculateCategoryScore patterns subject body sender =
     (let score0 = 0;
          score1 = foldl (keywordStep subject body) score0 (keywords_js patterns);
          score2 = foldl (patternStep sender 4) score1 (senderPatterns patterns);
          score3 = foldl (patternStep subject 3) score2 (subjectPatterns patterns);
          score4 = foldl (patternStep body 2) score3 (bodyPatterns patterns);
          score5 = foldl (patternStep sender 3) score4 (domainPatterns patterns)
      in score5)"

text \<open>The score as the specification words it: a sum of independent contributions.\<close>

definition hit :: "string \<Rightarrow> int \<Rightarrow> string \<Rightarrow> int" where
  "hit text weight pattern = (if includes_js text pattern then weight else 0)"

definition additiveScore :: "CategoryPatterns \<Rightarrow> string \<Rightarrow> string \<Rightarrow> string \<Rightarrow> int" where
  "additiveScore patterns subject body sender =
     sum_list (map (hit body 2) (keywords_js patterns))
   + sum_list (map (hit subject 3) (keywords_js patterns))
   + sum_list (map (hit sender 4) (senderPatterns patterns))
   + sum_list (map (hit subject 3) (subjectPatterns patterns))
   + sum_list (map (hit body 2) (bodyPatterns patterns))
   + sum_list (map (hit sender 3) (domainPatterns patterns))"

section \<open>Newsletter detection\<close>

definition quote :: rx where
  "quote = Cls (Union (Chr dq) (Chr sq))"

text \<open>\<open>/href=["'](.*?WORD.*?)["']/gi\<close> for the three words of \<open>unsubscribePatterns\<close>.\<close>

definition unsubscribePattern :: "string \<Rightarrow> rx" where
  "unsubscribePattern word =
     seqs (Lit ''href='') [quote,
       Cap 1 (seqs (Rep Dot 0 None False) [Lit word, Rep Dot 0 None False]),
       quote]"

definition unsubscribePatterns :: "rx list" where
  "unsubscribePatterns =
     [unsubscribePattern ''unsubscribe'', unsubscribePattern ''opt-out'', unsubscribePattern ''remove'']"

text \<open>\<open>/href=["'](.*?)["']/\<close>, without flags.\<close>

definition hrefPattern :: rx where
  "hrefPattern = seqs (Lit ''href='') [quote, Cap 1 (Rep Dot 0 None False), quote]"

text \<open>\<open>match.match(/href=["'](.*?)["']/)?.[1]\<close>, pushed when it is a non-empty string.\<close>

definition linkOfMatch :: "string \<Rightarrow> string list" where
  "linkOfMatch mt =
     (case rx_match_first False hrefPattern mt of
        None \<Rightarrow> []
      | Some (whole, caps) \<Rightarrow>
          (case map_of caps 1 of
             None \<Rightarrow> []
           | Some link \<Rightarrow> (if link = [] then [] else [link])))"

text \<open>\<open>[...new Set(links)]\<close>: the first occurrence of each element, in order.\<close>

fun uniqueInOrder :: "string list \<Rightarrow> string list \<Rightarrow> string list" where
  "uniqueInOrder seen [] = []"
| "uniqueInOrder seen (x # xs) =
     (if List.member seen x then uniqueInOrder seen xs else x # uniqueInOrder (x # seen) xs)"

definition extractUnsubscribeLinks :: "string \<Rightarrow> string list" where
  "extractUnsubscribeLinks body =
     (let links = concat (map (\<lambda>pattern.
                    concat (map linkOfMatch (rx_match_all True pattern None body)))
                  unsubscribePatterns)
      in uniqueInOrder [] links)"

definition detectNewsletter :: "string \<Rightarrow> string \<Rightarrow> string \<Rightarrow> NewsletterDetectionResult" where
  "detectNewsletter subject body sender =
     (let unsubscribeLinks = extractUnsubscribeLinks body;
          hasUnsubscribe = (length unsubscribeLinks > 0);
          newsletterScore = calculateCategoryScore (categoryPatterns Newsletter)
             (toLowerCase subject) (toLowerCase body) (toLowerCase sender);
          isNewsletter = (newsletterScore > 5 \<or> hasUnsubscribe);
          confidence = min ((of_int (newsletterScore + (if hasUnsubscribe then 5 else 0)) :: rat) / 10) 1
      in \<lparr> isNewsletter_n = isNewsletter, confidence_n = confidence,
            unsubscribeLinks = unsubscribeLinks,
            senderReputation = UnknownReputation, frequency = UnknownFrequency \<rparr>)"

section \<open>classifyEmail\<close>

definition determinePriority :: "string \<Rightarrow> string \<Rightarrow> TodoPriority option" where
  "determinePriority subject body =
     (let text = toLowerCase (subject @ '' '' @ body) in
      if includes_js text ''urgent'' \<or> includes_js text ''asap'' \<or> includes_js text ''emergency''
      then Some Urgent
      else if includes_js text ''important'' \<or> includes_js text ''deadline'' \<or> includes_js text ''critical''
      then Some High
      else if includes_js text ''please'' \<or> includes_js text ''request'' \<or> includes_js text ''need''
      then Some Medium
      else None)"

definition getTopIndicators :: "CategoryPatterns \<Rightarrow> string \<Rightarrow> string \<Rightarrow> string \<Rightarrow> string list" where
  "getTopIndicators patterns subject body sender =
     (let indicators1 = map (\<lambda>keyword. ''keyword: '' @ keyword)
            (filter (\<lambda>keyword. includes_js subject keyword \<or> includes_js body keyword)
               (keywords_js patterns));
          indicators2 = map (\<lambda>pattern. ''sender pattern: '' @ pattern)
            (filter (\<lambda>pattern. includes_js sender pattern) (senderPatterns patterns))
      in take 3 (indicators1 @ indicators2))"

text \<open>
  \<open>Array.prototype.sort\<close> with a comparator is a stable sort (ECMAScript 2019; the
  repository runs on Node 18): elements that compare equal keep their order.  Insertion
  from the right end gives that order.
\<close>

fun insertSorted :: "('a \<Rightarrow> 'a \<Rightarrow> int) \<Rightarrow> 'a \<Rightarrow> 'a list \<Rightarrow> 'a list" where
  "insertSorted cmp x [] = [x]"
| "insertSorted cmp x (y # ys) =
     (if cmp x y \<le> 0 then x # y # ys else y # insertSorted cmp x ys)"

definition sort_js :: "('a \<Rightarrow> 'a \<Rightarrow> int) \<Rightarrow> 'a list \<Rightarrow> 'a list" where
  "sort_js cmp xs = foldr (insertSorted cmp) xs []"

text \<open>The loop that fills \<open>scores\<close>, in key order, from the lower-cased texts.\<close>

definition categoryScores :: "string \<Rightarrow> string \<Rightarrow> string \<Rightarrow> (EmailCategory \<times> int) list" where
  "categoryScores subject body sender =
     map (\<lambda>category. (category,
            calculateCategoryScore (categoryPatterns category)
              (toLowerCase subject) (toLowerCase body) (toLowerCase sender)))
         categoryKeys"

text \<open>
  The body of the \<open>try\<close> block.  Its first statement that touches the parameters calls
  \<open>toLowerCase\<close> on subject, body and sender, in this order; each call throws a
  TypeError on \<open>null\<close> or \<open>undefined\<close>.  Destructuring \<open>sortedCategories[0]\<close> throws when
  the array is empty.
\<close>

definition classifyEmail_try :: "jsval \<Rightarrow> jsval \<Rightarrow> jsval \<Rightarrow> error + EmailClassificationResult" where
  "classifyEmail_try subjectV bodyV senderV =
     (case toLowerCase_js subjectV of Inl e \<Rightarrow> Inl e | Inr subjectL \<Rightarrow>
      case toLowerCase_js bodyV of Inl e \<Rightarrow> Inl e | Inr bodyL \<Rightarrow>
      case toLowerCase_js senderV of Inl e \<Rightarrow> Inl e | Inr senderL \<Rightarrow>
      (let subject = toString_js subjectV; body = toString_js bodyV; sender = toString_js senderV;
           scores = categoryScores subject body sender;
           sortedCategories = sort_js (\<lambda>(c1, a) (c2, b). b - a) scores
       in case sortedCategories of
            [] \<Rightarrow> Inl TypeError
          | (primaryCategory, primaryScore) # rest \<Rightarrow>
              Inr \<lparr> category = primaryCategory,
                    subcategories = map fst (take 3
                      (filter (\<lambda>(cat, score). cat \<noteq> primaryCategory \<and> score > 2) sortedCategories)),
                    confidence = min ((of_int primaryScore :: rat) / 10) 1,
                    isNewsletter = (primaryCategory = Newsletter
                      \<or> isNewsletter_n (detectNewsletter subject body sender)),
                    priority = determinePriority subject body,
                    reasoning = ''Primary indicators: '' @ join '', ''
                      (getTopIndicators (categoryPatterns primaryCategory) subject body sender) \<rparr>))"

text \<open>The \<open>catch\<close> block: the default classification.\<close>

definition classificationFailed :: EmailClassificationResult where
  "classificationFailed =
     \<lparr> category = Other, subcategories = [], confidence = 0, isNewsletter = False,
       priority = None, reasoning = ''Classification failed due to error'' \<rparr>"

definition classifyEmail :: "jsval \<Rightarrow> jsval \<Rightarrow> jsval \<Rightarrow> EmailClassificationResult" where
  "classifyEmail subject body sender =
     (case classifyEmail_try subject body sender of
        Inl e \<Rightarrow> classificationFailed
      | Inr result \<Rightarrow> result)"

section \<open>TodoExtractionService\<close>

definition initializeActionPatterns :: "ActionPattern list" where
  "initializeActionPatterns =
     [ \<lparr> keywords_a = [''urgent'', ''asap'', ''immediately'', ''emergency''],
         priority_a = Urgent, confidence_a = 9 / 10 \<rparr>,
       \<lparr> keywords_a = [''deadline'', ''due'', ''expires'', ''critical'', ''important''],
         priority_a = High, confidence_a = 8 / 10 \<rparr>,
       \<lparr> keywords_a = [''please review'', ''need to'', ''action required'', ''follow up''],
         priority_a = Medium, confidence_a = 7 / 10 \<rparr>,
       \<lparr> keywords_a = [''when you get a chance'', ''whenever'', ''if possible''],
         priority_a = Low, confidence_a = 6 / 10 \<rparr> ]"

text \<open>\<open>\d{1,2}\/\d{1,2}\/\d{2,4}\<close>\<close>

definition numericDate :: rx where
  "numericDate = seqs (Rep Digit 1 (Some 2) True)
     [Lit ''/'', Rep Digit 1 (Some 2) True, Lit ''/'', Rep Digit 2 (Some 4) True]"

text \<open>
  \<open>initializeTimePatterns\<close>: six regular-expression objects with the flags \<open>gi\<close>, created
  once in the constructor and kept in the service instance; \<open>lastIndex\<close> starts at 0.
\<close>

definition timePatternSources :: "rx list" where
  "timePatternSources =
     [ seqs (Lit ''by'') [spaces1, Cap 1 numericDate],
       seqs (Lit ''by'') [spaces1,
         Cap 1 (alts (Lit ''monday'') [Lit ''tuesday'', Lit ''wednesday'', Lit ''thursday'',
                  Lit ''friday'', Lit ''saturday'', Lit ''sunday''])],
       seqs (Lit ''due'') [spaces1, Cap 1 numericDate],
       seqs (Lit ''deadline'') [spaces1, Cap 1 numericDate],
       seqs (Lit ''before'') [spaces1, Cap 1 numericDate],
       seqs (Lit ''by'') [spaces1,
         Cap 1 (alts (Lit ''today'') [Lit ''tomorrow'',
                  seqs (Lit ''this'') [spaces1, Lit ''week''],
                  seqs (Lit ''next'') [spaces1, Lit ''week'']])] ]"

definition initializeTimePatterns :: "RegExp list" where
  "initializeTimePatterns = map (\<lambda>r. \<lparr> source = r, lastIndex = 0 \<rparr>) timePatternSources"

text \<open>\<open>text.split(/[.!?]+/)\<close>: a separator is a maximal run of the three characters.\<close>

definition isSentenceEnd :: "char \<Rightarrow> bool" where
  "isSentenceEnd c = (c = CHR ''.'' \<or> c = CHR ''!'' \<or> c = CHR ''?'')"

function splitRuns :: "(char \<Rightarrow> bool) \<Rightarrow> string \<Rightarrow> string \<Rightarrow> string list" where
  "splitRuns sep acc [] = [rev acc]"
| "splitRuns sep acc (x # xs) =
     (if sep x then rev acc # splitRuns sep [] (dropWhile sep xs)
      else splitRuns sep (x # acc) xs)"
  by pat_completeness auto
termination
  by (relation "measure (\<lambda>(sep, acc, s). length s)")
     (auto simp: le_imp_less_Suc length_dropWhile_le)

definition splitIntoSentences :: "string \<Rightarrow> string list" where
  "splitIntoSentences text =
     filter (\<lambda>s. length s > 10) (map trim (splitRuns isSentenceEnd [] text))"

text \<open>The two \<open>imperativePatterns\<close>, both with the flag \<open>i\<close>.\<close>

definition imperativePatterns :: "rx list" where
  "imperativePatterns =
     [ seqs Bol [Opt (Cap 1 (seqs (Lit ''please'') [spaces1])),
         Cap 2 (alts (Lit ''review'') [Lit ''send'', Lit ''complete'', Lit ''finish'',
                  Lit ''update'', Lit ''check'', Lit ''verify'', Lit ''confirm'',
                  Lit ''schedule'', Lit ''call'', Lit ''email''])],
       Cap 1 (alts (Lit ''need to'') [Lit ''have to'', Lit ''must'', Lit ''should'',
                Lit ''could you'', Lit ''would you'', Lit ''can you'']) ]"

definition findActionInSentence :: "string \<Rightarrow> ActionPattern option" where
  "findActionInSentence sentence =
     (let lowerSentence = toLowerCase sentence in
      case filter (\<lambda>pattern. list_ex (\<lambda>keyword. includes_js lowerSentence keyword)
                     (keywords_a pattern)) initializeActionPatterns of
        pattern # rest \<Rightarrow> Some pattern
      | [] \<Rightarrow>
          (if list_ex (\<lambda>pattern. rx_test True pattern sentence) imperativePatterns
           then Some \<lparr> keywords_a = [''action_verb''], priority_a = Medium, confidence_a = 6 / 10 \<rparr>
           else None))"

section \<open>Due dates\<close>

definition dayNames :: "string list" where
  "dayNames = [''sunday'', ''monday'', ''tuesday'', ''wednesday'', ''thursday'', ''friday'', ''saturday'']"

text \<open>The \<open>for\<close> loop over \<open>dayNames\<close>: the first index whose name the text includes.\<close>

fun findDayName :: "string \<Rightarrow> string list \<Rightarrow> nat \<Rightarrow> nat option" where
  "findDayName s [] i = None"
| "findDayName s (name # names) i =
     (if includes_js s name then Some i else findDayName s names (Suc i))"

definition parseDateString :: "Env \<Rightarrow> string \<Rightarrow> JSDate option" where
  "parseDateString env dateString =
     (let lowerDateString = trim (toLowerCase dateString);
          today = now env in
      if includes_js lowerDateString ''today'' then Some today
      else if includes_js lowerDateString ''tomorrow'' then Some (addDays today 1)
      else if includes_js lowerDateString ''this week'' then Some (addDays today (7 - getDay today))
      else if includes_js lowerDateString ''next week'' then Some (addDays today 7)
      else (case findDayName lowerDateString dayNames 0 of
              Some i \<Rightarrow>
                (let currentDay = getDay today;
                     daysUntilTarget = int i - currentDay
                 in Some (addDays today
                      (if daysUntilTarget \<le> 0 then daysUntilTarget + 7 else daysUntilTarget)))
            | None \<Rightarrow> parseDate env dateString))"

text \<open>
  \<open>extractDueDate\<close>: the loop over \<open>this.timePatterns\<close>.  Each \<open>exec\<close> updates the
  \<open>lastIndex\<close> of its pattern; the first pattern that matches ends the loop, and the
  patterns after it are not touched.  The argument of \<open>parseDateString\<close> is
  \<open>match[1] || match[0]\<close>.
\<close>

fun extractDueDate :: "Env \<Rightarrow> RegExp list \<Rightarrow> string \<Rightarrow> JSDate option \<times> RegExp list" where
  "extractDueDate env [] text = (None, [])"
| "extractDueDate env (pattern # patterns) text =
     (case exec pattern text of
        (Some (whole, caps), pattern') \<Rightarrow>
          (parseDateString env
             (case map_of caps 1 of
                Some g \<Rightarrow> (if g = [] then whole else g)
              | None \<Rightarrow> whole),
           pattern' # patterns)
      | (None, pattern') \<Rightarrow>
          (case extractDueDate env patterns text of
             (d, patterns') \<Rightarrow> (d, pattern' # patterns')))"

section \<open>Building todos\<close>

text \<open>\<open>/^(please\s+|kindly\s+|could you\s+|can you\s+|would you\s+)/i\<close>\<close>

definition titlePrefix :: rx where
  "titlePrefix =
     seqs Bol [Cap 1 (alts (seqs (Lit ''please'') [spaces1])
       [seqs (Lit ''kindly'') [spaces1], seqs (Lit ''could you'') [spaces1],
        seqs (Lit ''can you'') [spaces1], seqs (Lit ''would you'') [spaces1]])]"

text \<open>\<open>title.charAt(0).toUpperCase() + title.slice(1)\<close>\<close>

fun capitalize :: "string \<Rightarrow> string" where
  "capitalize [] = []"
| "capitalize (c # cs) = toUpperCase_char c @ cs"

definition generateTodoTitle :: "string \<Rightarrow> string" where
  "generateTodoTitle content =
     (let title1 = rx_remove_first True titlePrefix content;
          title2 = (if length title1 > 60 then take 57 title1 @ ''...'' else title1)
      in capitalize title2)"

definition createTodoFromSentence ::
  "Env \<Rightarrow> RegExp list \<Rightarrow> string \<Rightarrow> ActionPattern \<Rightarrow> TodoItem option \<times> RegExp list" where
  "createTodoFromSentence env patterns sentence actionMatch =
     (let cleanSentence = trim sentence in
      if length cleanSentence < 10 \<or> length cleanSentence > 200 then (None, patterns)
      else (case extractDueDate env patterns sentence of
              (due, patterns') \<Rightarrow>
                (Some \<lparr> title = generateTodoTitle cleanSentence,
                        description = cleanSentence,
                        priority_t = priority_a actionMatch,
                        status = Pending,
                        dueDate = due,
                        confidence_t = confidence_a actionMatch,
                        context_t = sentence,
                        actionKeywords = filter (\<lambda>keyword. includes_js (toLowerCase sentence) keyword)
                                           (keywords_a actionMatch) \<rparr>,
                 patterns')))"

definition createTodoFromText ::
  "Env \<Rightarrow> RegExp list \<Rightarrow> string \<Rightarrow> TodoPriority \<Rightarrow> TodoItem \<times> RegExp list" where
  "createTodoFromText env patterns content prio =
     (case extractDueDate env patterns content of
        (due, patterns') \<Rightarrow>
          (\<lparr> title = generateTodoTitle content,
             description = content,
             priority_t = prio,
             status = Pending,
             dueDate = due,
             confidence_t = 7 / 10,
             context_t = content,
             actionKeywords = [] \<rparr>,
           patterns'))"

text \<open>\<open>findActionItems\<close>: the \<open>forEach\<close> over the sentences, in order.\<close>

fun findActionItems_loop :: "Env \<Rightarrow> RegExp list \<Rightarrow> string list \<Rightarrow> TodoItem list \<times> RegExp list" where
  "findActionItems_loop env patterns [] = ([], patterns)"
| "findActionItems_loop env patterns (sentence # sentences) =
     (case findActionInSentence sentence of
        None \<Rightarrow> findActionItems_loop env patterns sentences
      | Some actionMatch \<Rightarrow>
          (case createTodoFromSentence env patterns sentence actionMatch of
             (None, patterns') \<Rightarrow> findActionItems_loop env patterns' sentences
           | (Some todo, patterns') \<Rightarrow>
               (case findActionItems_loop env patterns' sentences of
                  (others, patterns'') \<Rightarrow> (todo # others, patterns''))))"

definition findActionItems :: "Env \<Rightarrow> RegExp list \<Rightarrow> string \<Rightarrow> TodoItem list \<times> RegExp list" where
  "findActionItems env patterns text = findActionItems_loop env patterns (splitIntoSentences text)"

section \<open>Explicit lists\<close>

text \<open>
  The three \<open>todoIndicators\<close>, each of the form \<open>/\b(w1|w2|...)\b/i\<close>: a word boundary, the
  alternatives in order, a word boundary.
\<close>

definition wordsPattern :: "string \<Rightarrow> string list \<Rightarrow> rx" where
  "wordsPattern w ws = seqs WordB [Cap 1 (alts (Lit w) (map Lit ws)), WordB]"

definition looksLikeTodo :: "string \<Rightarrow> bool" where
  "looksLikeTodo content =
     list_ex (\<lambda>pattern. rx_test True pattern content)
       [ wordsPattern ''need'' [''must'', ''should'', ''review'', ''complete'', ''send'',
           ''update'', ''check'', ''verify'', ''call'', ''email'', ''schedule''],
         wordsPattern ''action'' [''task'', ''todo'', ''follow up'', ''deadline'', ''due''],
         wordsPattern ''please'' [''kindly'', ''would you'', ''can you'', ''could you''] ]"

text \<open>
  The heuristic as the specification words it, the presence of action, request or deadline
  vocabulary: one of the words and phrases below occurs in the content as a whole word,
  read without case.  \<open>wordHere prev s w\<close> says that the lower-case word \<open>w\<close> stands at the
  start of \<open>s\<close> with a word boundary before it (\<open>prev\<close> is the character before \<open>s\<close>)
  and a word boundary after it; \<open>wordOccurs\<close> looks for such a place from left to right.
\<close>

definition todoVocabulary :: "string list" where
  "todoVocabulary =
     [''need'', ''must'', ''should'', ''review'', ''complete'', ''send'', ''update'', ''check'',
      ''verify'', ''call'', ''email'', ''schedule'',
      ''action'', ''task'', ''todo'', ''follow up'', ''deadline'', ''due'',
      ''please'', ''kindly'', ''would you'', ''can you'', ''could you'']"

fun lastOpt :: "char option \<Rightarrow> string \<Rightarrow> char option" where
  "lastOpt prev [] = prev"
| "lastOpt prev (x # xs) = lastOpt (Some x) xs"

definition wordHere :: "char option \<Rightarrow> string \<Rightarrow> string \<Rightarrow> bool" where
  "wordHere prev s w =
     (startsWith (toLowerCase s) w
      \<and> isWordOpt prev \<noteq> isWordOpt (headOpt s)
      \<and> isWordOpt (lastOpt prev (take (length w) s)) \<noteq> isWordOpt (headOpt (drop (length w) s)))"

fun wordOccurs :: "char option \<Rightarrow> string \<Rightarrow> string \<Rightarrow> bool" where
  "wordOccurs prev [] w = wordHere prev [] w"
| "wordOccurs prev (x # xs) w = (wordHere prev (x # xs) w \<or> wordOccurs (Some x) xs w)"

definition hasVocabulary :: "string \<Rightarrow> bool" where
  "hasVocabulary content = list_ex (wordOccurs None content) todoVocabulary"

definition restOfLine :: rx where
  "restOfLine = Cap 1 (Rep (NotIn [LF, CR]) 1 None True)"

text \<open>\<open>/\d+\.\s+([^\n\r]+)/g\<close> and \<open>/^\d+\.\s+/\<close>\<close>

definition numberedItem :: rx where
  "numberedItem = seqs digits1 [Lit ''.'', spaces1, restOfLine]"

definition numberedMarker :: rx where
  "numberedMarker = seqs Bol [digits1, Lit ''.'', spaces1]"

text \<open>
  \<open>/[-\<bullet>*]\s+([^\n\r]+)/g\<close> and \<open>/^[-\<bullet>*]\s+/\<close>: the class of the hyphen, the bullet
  U+2022 and the asterisk.
\<close>

definition bulletChar :: rx where
  "bulletChar = Cls (Union (Chr CHR ''-'') (Union (Chr bullet) (Chr CHR ''*'')))"

definition bulletItem :: rx where
  "bulletItem = seqs bulletChar [spaces1, restOfLine]"

definition bulletMarker :: rx where
  "bulletMarker = seqs Bol [bulletChar, spaces1]"

text \<open>\<open>/\[[\sx]\]\s+([^\n\r]+)/gi\<close>, \<open>/\[[\sx]\]\s+/i\<close> and \<open>/\[x\]/i\<close>\<close>

definition checkboxMark :: rx where
  "checkboxMark = seqs (Lit ''['') [Cls (Union Space (Chr CHR ''x'')), Lit '']'']"

definition checkboxItem :: rx where
  "checkboxItem = seqs checkboxMark [spaces1, restOfLine]"

definition checkboxMarker :: rx where
  "checkboxMarker = seqs checkboxMark [spaces1]"

definition checkedMark :: rx where
  "checkedMark = Lit ''[x]''"

text \<open>
  The \<open>forEach\<close> over the numbered items and the one over the bullet items differ only in
  the marker they strip: an item whose content \<open>looksLikeTodo\<close> accepts becomes a
  medium-priority todo through \<open>createTodoFromText\<close>.
\<close>

fun listItems_loop ::
  "rx \<Rightarrow> Env \<Rightarrow> RegExp list \<Rightarrow> string list \<Rightarrow> TodoItem list \<times> RegExp list" where
  "listItems_loop marker env patterns [] = ([], patterns)"
| "listItems_loop marker env patterns (item # items) =
     (let content = rx_remove_first False marker item in
      if looksLikeTodo content
      then (case createTodoFromText env patterns content Medium of
              (todo, patterns') \<Rightarrow>
                (case listItems_loop marker env patterns' items of
                   (others, patterns'') \<Rightarrow> (todo # others, patterns'')))
      else listItems_loop marker env patterns items)"

text \<open>
  The \<open>forEach\<close> over the checkbox items: every item becomes a todo, and its status is
  \<open>completed\<close> when the item matches \<open>/\[x\]/i\<close>.
\<close>

fun checkboxItems_loop ::
  "Env \<Rightarrow> RegExp list \<Rightarrow> string list \<Rightarrow> TodoItem list \<times> RegExp list" where
  "checkboxItems_loop env patterns [] = ([], patterns)"
| "checkboxItems_loop env patterns (item # items) =
     (let content = rx_remove_first True checkboxMarker item;
          isCompleted = rx_test True checkedMark item;
          st = (if isCompleted then Completed else Pending)
      in case createTodoFromText env patterns content Medium of
           (todo, patterns') \<Rightarrow>
             (case checkboxItems_loop env patterns' items of
                (others, patterns'') \<Rightarrow> (todo\<lparr>status := st\<rparr> # others, patterns'')))"

definition extractExplicitTodos :: "Env \<Rightarrow> RegExp list \<Rightarrow> string \<Rightarrow> TodoItem list \<times> RegExp list" where
  "extractExplicitTodos env patterns text =
     (case listItems_loop numberedMarker env patterns
             (rx_match_all False numberedItem None text) of
        (numbered, patterns1) \<Rightarrow>
          (case listItems_loop bulletMarker env patterns1
                  (rx_match_all False bulletItem None text) of
             (bullets, patterns2) \<Rightarrow>
               (case checkboxItems_loop env patterns2
                       (rx_match_all True checkboxItem None text) of
                  (checkboxes, patterns3) \<Rightarrow>
                    (numbered @ bullets @ checkboxes, patterns3))))"

section \<open>extractTodos\<close>

definition normalizedSignature :: "TodoItem \<Rightarrow> string" where
  "normalizedSignature todo =
     (let signature = toLowerCase (title todo) @ ''_'' @ toLowerCase (description todo)
      in take 50 (filter (\<lambda>c. \<not> isSpace c) signature))"

fun deduplicate_loop :: "string list \<Rightarrow> TodoItem list \<Rightarrow> TodoItem list" where
  "deduplicate_loop seen [] = []"
| "deduplicate_loop seen (todo # others) =
     (if List.member seen (normalizedSignature todo) then deduplicate_loop seen others
      else todo # deduplicate_loop (normalizedSignature todo # seen) others)"

definition deduplicateTodos :: "TodoItem list \<Rightarrow> TodoItem list" where
  "deduplicateTodos allTodos = deduplicate_loop [] allTodos"

fun priorityName :: "TodoPriority \<Rightarrow> string" where
  "priorityName Low = ''low''"
| "priorityName Medium = ''medium''"
| "priorityName High = ''high''"
| "priorityName Urgent = ''urgent''"

text \<open>A number written in decimal, as a template literal prints it.\<close>

fun showNat :: "nat \<Rightarrow> string" where
  "showNat n = (if n < 10 then [''0123456789'' ! n]
                else showNat (n div 10) @ [''0123456789'' ! (n mod 10)])"

fun reasons :: "nat \<Rightarrow> TodoItem list \<Rightarrow> string list" where
  "reasons index [] = []"
| "reasons index (todo # others) =
     (''Todo '' @ showNat (index + 1) @ '': Detected '' @ [dq]
        @ (if length (actionKeywords todo) > 0 then join '', '' (actionKeywords todo)
           else ''action verbs'')
        @ [dq] @ '' indicating '' @ priorityName (priority_t todo) @ '' priority action'')
     # reasons (Suc index) others"

definition generateReasoning :: "TodoItem list \<Rightarrow> string" where
  "generateReasoning filteredTodos =
     (if length filteredTodos = 0 then ''No actionable items detected in email content''
      else join ''; '' (reasons 0 filteredTodos))"

text \<open>
  The body of the \<open>try\<close> block.  The template literal converts each parameter to a string
  (\<open>null\<close> and \<open>undefined\<close> become the words), and no later step throws.  The result comes
  with the state of the time patterns after the call.
\<close>

definition extractTodos_try ::
  "AIProcessingConfig \<Rightarrow> Env \<Rightarrow> RegExp list \<Rightarrow> jsval \<Rightarrow> jsval
     \<Rightarrow> error + (TodoExtractionResult \<times> RegExp list)" where
  "extractTodos_try config env patterns subject body =
     (let text = toString_js subject @ '' '' @ toString_js body in
      case findActionItems env patterns text of
        (actionItems, patterns1) \<Rightarrow>
          (case extractExplicitTodos env patterns1 text of
             (explicitTodos, patterns2) \<Rightarrow>
               (let allTodos = actionItems @ explicitTodos;
                    uniqueTodos = deduplicateTodos allTodos;
                    filteredTodos = filter (\<lambda>todo. confidence_t todo \<ge> confidenceThreshold config)
                                      uniqueTodos;
                    hasTodos = (length filteredTodos > 0);
                    averageConfidence =
                      (if hasTodos
                       then sum_list (map confidence_t filteredTodos) / of_nat (length filteredTodos)
                       else 0)
                in Inr (\<lparr> todos = filteredTodos, hasTodos = hasTodos,
                           confidence_x = averageConfidence,
                           reasoning_x = generateReasoning filteredTodos \<rparr>,
                        patterns2))))"

text \<open>The \<open>catch\<close> block: the empty result.\<close>

definition extractionFailed :: TodoExtractionResult where
  "extractionFailed =
     \<lparr> todos = [], hasTodos = False, confidence_x = 0,
       reasoning_x = ''Extraction failed due to error'' \<rparr>"

definition extractTodos ::
  "AIProcessingConfig \<Rightarrow> Env \<Rightarrow> RegExp list \<Rightarrow> jsval \<Rightarrow> jsval
     \<Rightarrow> TodoExtractionResult \<times> RegExp list" where
  "extractTodos config env patterns subject body =
     (case extractTodos_try config env patterns subject body of
        Inl e \<Rightarrow> (extractionFailed, patterns)
      | Inr r \<Rightarrow> r)"

text \<open>The configuration of the tests and of \<open>AIEmailProcessorService\<close>'s constructor.\<close>

definition defaultConfig :: AIProcessingConfig where
  "defaultConfig =
     \<lparr> enableCategorization = True, enableTodoExtraction = True,
       enableNewsletterDetection = True, maxTokensPerEmail = 4000,
       confidenceThreshold = 1 / 2, batchSize = 10 \<rparr>"

text \<open>
  An environment for concrete runs: the clock reads 1 January 1970, 00:00, and the date
  parser of the runtime rejects every string.
\<close>

definition epochEnv :: Env where
  "epochEnv = \<lparr> now = \<lparr> dayNumber = 0, msOfDay = 0 \<rparr>, parseDate = (\<lambda>s. None) \<rparr>"

section \<open>The category score is an additive sum\<close>

lemma foldl_patternStep:
  "foldl (patternStep text weight) acc ps = acc + sum_list (map (hit text weight) ps)"
  by (induction ps arbitrary: acc) (simp_all add: patternStep_def hit_def)

lemma foldl_keywordStep:
  "foldl (keywordStep subject body) acc ks =
     acc + sum_list (map (hit body 2) ks) + sum_list (map (hit subject 3) ks)"
  by (induction ks arbitrary: acc) (simp_all add: keywordStep_def hit_def Let_def)

lemma calculateCategoryScore_additive:
  "calculateCategoryScore patterns subject body sender = additiveScore patterns subject body sender"
  by (simp add: calculateCategoryScore_def additiveScore_def Let_def
                foldl_patternStep foldl_keywordStep)

text \<open>
  C1.  For every subject, body and sender and every category, the score that the
  classification loop stores for the category is the additive sum over the category's
  pattern catalog: 2 for each keyword in the lower-cased body, 3 for each keyword in the
  lower-cased subject, 4 for each sender pattern in the lower-cased sender, 3 for each
  subject pattern in the lower-cased subject, 2 for each body pattern in the lower-cased
  body, 3 for each domain pattern in the lower-cased sender; a pattern that does not occur
  contributes 0, and every pattern of the catalog is counted.
\<close>

theorem category_score_additive:
  "map_of (categoryScores subject body sender) c =
     Some (sum_list (map (hit (toLowerCase body) 2) (keywords_js (categoryPatterns c)))
         + sum_list (map (hit (toLowerCase subject) 3) (keywords_js (categoryPatterns c)))
         + sum_list (map (hit (toLowerCase sender) 4) (senderPatterns (categoryPatterns c)))
         + sum_list (map (hit (toLowerCase subject) 3) (subjectPatterns (categoryPatterns c)))
         + sum_list (map (hit (toLowerCase body) 2) (bodyPatterns (categoryPatterns c)))
         + sum_list (map (hit (toLowerCase sender) 3) (domainPatterns (categoryPatterns c))))"
proof -
  have "c \<in> set categoryKeys"
    by (cases c) (simp_all add: categoryKeys_def)
  then have "map_of (categoryScores subject body sender) c =
      Some (calculateCategoryScore (categoryPatterns c)
              (toLowerCase subject) (toLowerCase body) (toLowerCase sender))"
    unfolding categoryScores_def by (simp add: map_of_map_restrict)
  then show ?thesis
    by (simp add: calculateCategoryScore_additive additiveScore_def)
qed

section \<open>Neither service throws\<close>

lemma length_insertSorted: "length (insertSorted cmp x xs) = Suc (length xs)"
  by (induction xs) simp_all

lemma length_sort_js: "length (sort_js cmp xs) = length xs"
  unfolding sort_js_def by (induction xs) (simp_all add: length_insertSorted)

lemma sortedCategories_nonempty:
  "sort_js cmp (categoryScores subject body sender) \<noteq> []"
proof -
  have "length (sort_js cmp (categoryScores subject body sender)) = 13"
    by (simp add: length_sort_js categoryScores_def categoryKeys_def)
  then show ?thesis by auto
qed

lemma classifyEmail_try_strings:
  "\<exists>r. classifyEmail_try (JSString s) (JSString b) (JSString sd) = Inr r"
proof -
  obtain c n rest where
    "sort_js (\<lambda>(c1, a) (c2, b). b - a) (categoryScores s b sd) = (c, n) # rest"
    using sortedCategories_nonempty [of "\<lambda>(c1, a) (c2, b). b - a" s b sd]
    by (cases "sort_js (\<lambda>(c1, a) (c2, b). b - a) (categoryScores s b sd)") auto
  then show ?thesis
    by (simp add: classifyEmail_try_def toLowerCase_js_def toString_js_def Let_def)
qed

lemma extractTodos_try_returns:
  "\<exists>r. extractTodos_try config env patterns subject body = Inr r"
  by (simp add: extractTodos_try_def Let_def split: prod.splits)

text \<open>
  C2.  \<open>classifyEmail\<close> and \<open>extractTodos\<close> return a result for every input and never
  throw: the \<open>try\<close> block of \<open>extractTodos\<close> completes for every subject and body
  (\<open>null\<close> and \<open>undefined\<close> included), the \<open>try\<close> block of \<open>classifyEmail\<close> completes
  for all strings, and whenever it faults the \<open>catch\<close> block returns exactly category
  \<open>other\<close>, no subcategories, confidence 0, \<open>isNewsletter\<close> false, priority \<open>null\<close> and a
  reasoning that says the classification failed.  A \<open>null\<close> or \<open>undefined\<close> subject, body
  or sender is such a fault.
\<close>

theorem services_never_throw:
  "(\<exists>r. extractTodos_try config env patterns subject body = Inr r
        \<and> extractTodos config env patterns subject body = r)
   \<and> (\<exists>r. classifyEmail_try (JSString s) (JSString b) (JSString sd) = Inr r
        \<and> classifyEmail (JSString s) (JSString b) (JSString sd) = r)
   \<and> classifyEmail subjectV bodyV senderV =
        (case classifyEmail_try subjectV bodyV senderV of
           Inl e \<Rightarrow> \<lparr> category = Other, subcategories = [], confidence = 0,
                      isNewsletter = False, priority = None,
                      reasoning = ''Classification failed due to error'' \<rparr>
         | Inr r \<Rightarrow> r)
   \<and> classifyEmail_try JSNull bodyV senderV = Inl TypeError
   \<and> classifyEmail_try JSUndefined bodyV senderV = Inl TypeError
   \<and> classifyEmail_try (JSString s) JSNull senderV = Inl TypeError
   \<and> classifyEmail_try (JSString s) JSUndefined senderV = Inl TypeError
   \<and> classifyEmail_try (JSString s) (JSString b) JSNull = Inl TypeError
   \<and> classifyEmail_try (JSString s) (JSString b) JSUndefined = Inl TypeError
   \<and> includes_js ''Classification failed due to error'' ''failed''"
proof -
  have a: "\<exists>r. extractTodos_try config env patterns subject body = Inr r
        \<and> extractTodos config env patterns subject body = r"
    using extractTodos_try_returns [of config env patterns subject body]
    by (auto simp: extractTodos_def)
  have b: "\<exists>r. classifyEmail_try (JSString s) (JSString b) (JSString sd) = Inr r
        \<and> classifyEmail (JSString s) (JSString b) (JSString sd) = r"
    using classifyEmail_try_strings [of s b sd] by (auto simp: classifyEmail_def)
  have c: "classifyEmail subjectV bodyV senderV =
        (case classifyEmail_try subjectV bodyV senderV of
           Inl e \<Rightarrow> \<lparr> category = Other, subcategories = [], confidence = 0,
                      isNewsletter = False, priority = None,
                      reasoning = ''Classification failed due to error'' \<rparr>
         | Inr r \<Rightarrow> r)"
    by (simp add: classifyEmail_def classificationFailed_def split: sum.splits)
  have d: "classifyEmail_try JSNull bodyV senderV = Inl TypeError"
    "classifyEmail_try JSUndefined bodyV senderV = Inl TypeError"
    "classifyEmail_try (JSString s) JSNull senderV = Inl TypeError"
    "classifyEmail_try (JSString s) JSUndefined senderV = Inl TypeError"
    "classifyEmail_try (JSString s) (JSString b) JSNull = Inl TypeError"
    "classifyEmail_try (JSString s) (JSString b) JSUndefined = Inl TypeError"
    by (simp_all add: classifyEmail_try_def toLowerCase_js_def)
  have e: "includes_js ''Classification failed due to error'' ''failed''"
    by code_simp
  from a b c d e show ?thesis by blast
qed

section \<open>Explicit lists\<close>

lemma createTodoFromText_fields:
  "description (fst (createTodoFromText env patterns content prio)) = content
   \<and> priority_t (fst (createTodoFromText env patterns content prio)) = prio
   \<and> confidence_t (fst (createTodoFromText env patterns content prio)) = 7 / 10
   \<and> status (fst (createTodoFromText env patterns content prio)) = Pending"
  by (simp add: createTodoFromText_def split: prod.splits)

lemma listItems_loop_fields:
  "map (\<lambda>t. (description t, priority_t t, confidence_t t, status t))
       (fst (listItems_loop marker env patterns items)) =
   map (\<lambda>c. (c, Medium, 7 / 10, Pending))
       (filter looksLikeTodo (map (rx_remove_first False marker) items))"
proof (induction items arbitrary: patterns)
  case Nil
  show ?case by simp
next
  case (Cons item items)
  show ?case
  proof (cases "looksLikeTodo (rx_remove_first False marker item)")
    case False
    with Cons.IH show ?thesis by (simp add: Let_def)
  next
    case True
    obtain todo p' where c: "createTodoFromText env patterns (rx_remove_first False marker item) Medium = (todo, p')"
      by (cases "createTodoFromText env patterns (rx_remove_first False marker item) Medium")
    obtain others p'' where l: "listItems_loop marker env p' items = (others, p'')"
      by (cases "listItems_loop marker env p' items")
    from createTodoFromText_fields [of env patterns "rx_remove_first False marker item" Medium] c
    have f: "description todo = rx_remove_first False marker item" "priority_t todo = Medium"
      "confidence_t todo = 7 / 10" "status todo = Pending" by simp_all
    from Cons.IH [of p'] l True c f show ?thesis by (simp add: Let_def)
  qed
qed

lemma checkboxItems_loop_fields:
  "map (\<lambda>t. (description t, priority_t t, confidence_t t, status t))
       (fst (checkboxItems_loop env patterns items)) =
   map (\<lambda>item. (rx_remove_first True checkboxMarker item, Medium, 7 / 10,
                 if rx_test True checkedMark item then Completed else Pending)) items"
proof (induction items arbitrary: patterns)
  case Nil
  show ?case by simp
next
  case (Cons item items)
  obtain todo p' where c: "createTodoFromText env patterns (rx_remove_first True checkboxMarker item) Medium = (todo, p')"
    by (cases "createTodoFromText env patterns (rx_remove_first True checkboxMarker item) Medium")
  obtain others p'' where l: "checkboxItems_loop env p' items = (others, p'')"
    by (cases "checkboxItems_loop env p' items")
  from createTodoFromText_fields [of env patterns "rx_remove_first True checkboxMarker item" Medium] c
  have f: "description todo = rx_remove_first True checkboxMarker item" "priority_t todo = Medium"
    "confidence_t todo = 7 / 10" by simp_all
  from Cons.IH [of p'] l c f show ?case by (simp add: Let_def)
qed

text \<open>
  What the patterns of \<open>looksLikeTodo\<close> and the pattern \<open>/\[x\]/i\<close> accept, without the
  matcher.
\<close>

lemma m_Lit:
  "m True (KR (Lit p) # k) prev s caps =
     (if startsWith (toLowerCase s) (toLowerCase p)
      then m True k (lastOpt prev (take (length p) s)) (drop (length p) s) caps
      else None)"
proof (induction p arbitrary: prev s)
  case Nil
  show ?case by (simp add: toLowerCase_def)
next
  case (Cons a p)
  show ?case
  proof (cases s)
    case Nil
    then show ?thesis by (simp add: toLowerCase_def)
  next
    case (Cons x xs)
    with Cons.IH [of "Some x" xs] show ?thesis
      by (auto simp: toLowerCase_def chr_match_def)
  qed
qed

lemma m_alts_None:
  "(m ci (KR (alts r rs) # k) prev s caps = None) =
     list_all (\<lambda>r'. m ci (KR r' # k) prev s caps = None) (r # rs)"
  by (induction rs arbitrary: r) (auto split: option.splits)

lemma m_wordsPattern:
  assumes "list_all (\<lambda>w. toLowerCase w = w) (w # ws)"
  shows "(m True [KR (wordsPattern w ws)] prev s [] = None) =
           list_all (\<lambda>w'. \<not> wordHere prev s w') (w # ws)"
proof -
  have one: "(m True (KR (Lit w') # [KCapEnd 1 s, KR WordB]) prev s [] = None) =
      (\<not> (startsWith (toLowerCase s) w'
          \<and> isWordOpt (lastOpt prev (take (length w') s)) \<noteq> isWordOpt (headOpt (drop (length w') s))))"
    if "toLowerCase w' = w'" for w'
    using that by (simp add: m_Lit)
  have "(m True [KR (wordsPattern w ws)] prev s [] = None) =
      (isWordOpt prev = isWordOpt (headOpt s)
       \<or> m True (KR (alts (Lit w) (map Lit ws)) # [KCapEnd 1 s, KR WordB]) prev s [] = None)"
    by (simp add: wordsPattern_def)
  also have "\<dots> = (isWordOpt prev = isWordOpt (headOpt s)
       \<or> list_all (\<lambda>r'. m True (KR r' # [KCapEnd 1 s, KR WordB]) prev s [] = None)
            (map Lit (w # ws)))"
    by (simp only: m_alts_None list.map)
  also have "\<dots> = list_all (\<lambda>w'. \<not> wordHere prev s w') (w # ws)"
    using assms
  proof (induction ws arbitrary: w)
    case Nil
    then show ?case using one [of w] by (auto simp: wordHere_def)
  next
    case (Cons v ws)
    from Cons.prems have lw: "toLowerCase w = w" and rest: "list_all (\<lambda>w. toLowerCase w = w) (v # ws)"
      by simp_all
    from Cons.IH [OF rest] one [OF lw] show ?case
      by (auto simp: wordHere_def)
  qed
  finally show ?thesis .
qed

lemma rx_search_wordsPattern:
  assumes "list_all (\<lambda>w. toLowerCase w = w) (w # ws)"
  shows "(rx_search True (wordsPattern w ws) prev s = None) =
           list_all (\<lambda>w'. \<not> wordOccurs prev s w') (w # ws)"
proof (induction s arbitrary: prev)
  case Nil
  show ?case using m_wordsPattern [OF assms, of prev "[]"]
    by (auto split: option.splits simp: list_all_iff)
next
  case (Cons x xs)
  show ?case using m_wordsPattern [OF assms, of prev "x # xs"] Cons.IH [of "Some x"]
    by (auto split: option.splits simp: list_all_iff)
qed

lemma rx_test_wordsPattern:
  assumes "list_all (\<lambda>w. toLowerCase w = w) (w # ws)"
  shows "rx_test True (wordsPattern w ws) s = list_ex (wordOccurs None s) (w # ws)"
  using rx_search_wordsPattern [OF assms, of None s]
  by (auto simp: rx_test_def list_all_iff list_ex_iff split: option.splits)

lemma vocabulary_lower: "list_all (\<lambda>w. toLowerCase w = w) todoVocabulary"
  by code_simp

lemma looksLikeTodo_vocabulary: "looksLikeTodo content = hasVocabulary content"
proof -
  have l: "list_all (\<lambda>w. toLowerCase w = w)
      (''need'' # [''must'', ''should'', ''review'', ''complete'', ''send'',
           ''update'', ''check'', ''verify'', ''call'', ''email'', ''schedule''])"
    "list_all (\<lambda>w. toLowerCase w = w)
      (''action'' # [''task'', ''todo'', ''follow up'', ''deadline'', ''due''])"
    "list_all (\<lambda>w. toLowerCase w = w)
      (''please'' # [''kindly'', ''would you'', ''can you'', ''could you''])"
    using vocabulary_lower by (simp_all add: todoVocabulary_def)
  show ?thesis
    unfolding looksLikeTodo_def hasVocabulary_def todoVocabulary_def
    by (simp only: list_ex_Nil_iff list_ex_Cons_iff rx_test_wordsPattern [OF l(1)] rx_test_wordsPattern [OF l(2)]
          rx_test_wordsPattern [OF l(3)] simp_thms disj_assoc)
qed

lemma rx_search_Lit:
  "(rx_search True (Lit p) prev s = None) = (\<not> includes_js (toLowerCase s) (toLowerCase p))"
proof (induction s arbitrary: prev)
  case Nil
  have "m True [KR (Lit p)] prev [] [] = (if toLowerCase p = [] then Some ([], []) else None)"
    by (cases "toLowerCase p") (simp_all add: m_Lit toLowerCase_def)
  then show ?case by (simp add: toLowerCase_def)
next
  case (Cons x xs)
  have l: "toLowerCase (x # xs) = toLowerCase_char x # toLowerCase xs"
    by (simp add: toLowerCase_def)
  show ?case
  proof (cases "startsWith (toLowerCase (x # xs)) (toLowerCase p)")
    case True
    then have "m True [KR (Lit p)] prev (x # xs) [] \<noteq> None" by (simp add: m_Lit)
    with True show ?thesis by (auto simp: l)
  next
    case False
    then have "m True [KR (Lit p)] prev (x # xs) [] = None" by (simp add: m_Lit)
    with False Cons.IH [of "Some x"] show ?thesis
      by (cases "rx_search True (Lit p) (Some x) xs") (auto simp: l)
  qed
qed

lemma rx_test_checkedMark:
  "rx_test True checkedMark item = includes_js (toLowerCase item) ''[x]''"
proof -
  have "toLowerCase ''[x]'' = ''[x]''" by code_simp
  with rx_search_Lit [of "''[x]''" None item] show ?thesis
    unfolding rx_test_def checkedMark_def
    by (cases "rx_search True (Lit ''[x]'') None item") simp_all
qed

lemma startsWith_includes: "startsWith s p \<Longrightarrow> includes_js s p"
proof (cases s)
  case Nil
  assume "startsWith s p"
  with Nil show ?thesis by (cases p) simp_all
next
  case (Cons x xs)
  assume "startsWith s p"
  with Cons show ?thesis by simp
qed

lemma map_eq_list_all2:
  "map f xs = map g ys \<Longrightarrow> list_all2 (\<lambda>x y. f x = g y) xs ys"
proof (induction xs arbitrary: ys)
  case Nil
  then show ?case by simp
next
  case (Cons x xs)
  then show ?case by (cases ys) simp_all
qed

text \<open>
  C8, as amended.  In explicit-list extraction the content of every numbered item and of
  every bullet item is tested with the looks-like-a-todo heuristic (presence of action,
  request or deadline vocabulary), and only accepted items become medium-priority
  candidates with confidence 0.7; every checkbox item becomes a medium-priority candidate
  with confidence 0.7 without that test.  A checkbox item marked \<open>[x]\<close> (in either case)
  carries status \<open>completed\<close>; a numbered or bullet candidate starts with status
  \<open>pending\<close>, and so does a checkbox item whose text holds no \<open>[x]\<close>.  The candidates come
  in the order numbered, bullet, checkbox, each with the item's content as description.
\<close>

theorem explicit_list_candidates:
  "list_all2
     (\<lambda>todo item. case item of
          Inl content \<Rightarrow>
            description todo = content \<and> priority_t todo = Medium
            \<and> confidence_t todo = 7 / 10 \<and> status todo = Pending
        | Inr checkbox \<Rightarrow>
            description todo = rx_remove_first True checkboxMarker checkbox
            \<and> priority_t todo = Medium \<and> confidence_t todo = 7 / 10
            \<and> (startsWith (toLowerCase checkbox) ''[x]'' \<longrightarrow> status todo = Completed)
            \<and> (\<not> includes_js (toLowerCase checkbox) ''[x]'' \<longrightarrow> status todo = Pending))
     (fst (extractExplicitTodos env patterns text))
     (map Inl (filter looksLikeTodo
        (map (rx_remove_first False numberedMarker) (rx_match_all False numberedItem None text)))
      @ map Inl (filter looksLikeTodo
        (map (rx_remove_first False bulletMarker) (rx_match_all False bulletItem None text)))
      @ map Inr (rx_match_all True checkboxItem None text))
   \<and> (\<forall>content. looksLikeTodo content = list_ex (wordOccurs None content) todoVocabulary)"
proof -
  let ?R = "\<lambda>todo item. case item of
          Inl content \<Rightarrow>
            description todo = content \<and> priority_t todo = Medium
            \<and> confidence_t todo = 7 / 10 \<and> status todo = Pending
        | Inr checkbox \<Rightarrow>
            description todo = rx_remove_first True checkboxMarker checkbox
            \<and> priority_t todo = Medium \<and> confidence_t todo = 7 / 10
            \<and> (startsWith (toLowerCase checkbox) ''[x]'' \<longrightarrow> status todo = Completed)
            \<and> (\<not> includes_js (toLowerCase checkbox) ''[x]'' \<longrightarrow> status todo = Pending)"
  have tested: "list_all2 ?R (fst (listItems_loop marker env p items))
      (map Inl (filter looksLikeTodo (map (rx_remove_first False marker) items)))"
    for marker p items
  proof -
    have "list_all2 (\<lambda>todo content. ?R todo (Inl content)) (fst (listItems_loop marker env p items))
        (filter looksLikeTodo (map (rx_remove_first False marker) items))"
      by (rule list_all2_mono [OF map_eq_list_all2 [OF listItems_loop_fields [of marker env p items]]])
         simp
    then show ?thesis by (simp only: list_all2_map2)
  qed
  have boxes: "list_all2 ?R (fst (checkboxItems_loop env p items)) (map Inr items)" for p items
  proof -
    have "list_all2 (\<lambda>todo item. ?R todo (Inr item)) (fst (checkboxItems_loop env p items)) items"
    proof (rule list_all2_mono [OF map_eq_list_all2 [OF checkboxItems_loop_fields [of env p items]]])
      fix todo item
      assume "(description todo, priority_t todo, confidence_t todo, status todo) =
        (rx_remove_first True checkboxMarker item, Medium, 7 / 10,
         if rx_test True checkedMark item then Completed else Pending)"
      then have f: "description todo = rx_remove_first True checkboxMarker item"
        "priority_t todo = Medium" "confidence_t todo = 7 / 10"
        "status todo = (if includes_js (toLowerCase item) ''[x]'' then Completed else Pending)"
        by (simp_all add: rx_test_checkedMark)
      show "?R todo (Inr item)"
      proof (cases "includes_js (toLowerCase item) ''[x]''")
        case True
        with f show ?thesis by simp
      next
        case False
        with startsWith_includes [of "toLowerCase item" "''[x]''"]
        have "\<not> startsWith (toLowerCase item) ''[x]''" by blast
        with False f show ?thesis by simp
      qed
    qed
    then show ?thesis by (simp only: list_all2_map2)
  qed
  obtain n p1 where a: "listItems_loop numberedMarker env patterns
      (rx_match_all False numberedItem None text) = (n, p1)"
    by (cases "listItems_loop numberedMarker env patterns (rx_match_all False numberedItem None text)")
  obtain b p2 where b: "listItems_loop bulletMarker env p1
      (rx_match_all False bulletItem None text) = (b, p2)"
    by (cases "listItems_loop bulletMarker env p1 (rx_match_all False bulletItem None text)")
  obtain c p3 where c: "checkboxItems_loop env p2
      (rx_match_all True checkboxItem None text) = (c, p3)"
    by (cases "checkboxItems_loop env p2 (rx_match_all True checkboxItem None text)")
  from a b c have whole: "fst (extractExplicitTodos env patterns text) = n @ b @ c"
    by (simp add: extractExplicitTodos_def)
  from a tested [of numberedMarker patterns "rx_match_all False numberedItem None text"]
  have 1: "list_all2 ?R n (map Inl (filter looksLikeTodo
        (map (rx_remove_first False numberedMarker) (rx_match_all False numberedItem None text))))"
    by simp
  from b tested [of bulletMarker p1 "rx_match_all False bulletItem None text"]
  have 2: "list_all2 ?R b (map Inl (filter looksLikeTodo
        (map (rx_remove_first False bulletMarker) (rx_match_all False bulletItem None text))))"
    by simp
  from c boxes [of p2 "rx_match_all True checkboxItem None text"]
  have 3: "list_all2 ?R c (map Inr (rx_match_all True checkboxItem None text))"
    by simp
  from 1 2 3 have "list_all2 ?R (n @ b @ c)
     (map Inl (filter looksLikeTodo
        (map (rx_remove_first False numberedMarker) (rx_match_all False numberedItem None text)))
      @ map Inl (filter looksLikeTodo
        (map (rx_remove_first False bulletMarker) (rx_match_all False bulletItem None text)))
      @ map Inr (rx_match_all True checkboxItem None text))"
    by (intro list_all2_appendI)
  with whole have A: "list_all2 ?R (fst (extractExplicitTodos env patterns text))
     (map Inl (filter looksLikeTodo
        (map (rx_remove_first False numberedMarker) (rx_match_all False numberedItem None text)))
      @ map Inl (filter looksLikeTodo
        (map (rx_remove_first False bulletMarker) (rx_match_all False bulletItem None text)))
      @ map Inr (rx_match_all True checkboxItem None text))"
    by (simp only:)
  have B: "\<forall>content. looksLikeTodo content = list_ex (wordOccurs None content) todoVocabulary"
    by (simp only: looksLikeTodo_vocabulary hasVocabulary_def simp_thms)
  from A B show ?thesis by (rule conjI)
qed



text \<open>
  A run of the amended statement: a bullet item introduced by U+2022, a checked and an
  unchecked checkbox.
\<close>

theorem explicit_list_candidates_witness:
  "looksLikeTodo ''call Bob''
   \<and> startsWith (toLowerCase ''[X] done'') ''[x]''
   \<and> \<not> includes_js (toLowerCase ''[ ] milk'') ''[x]''
   \<and> map (\<lambda>t. (description t, priority_t t, confidence_t t, status t))
       (fst (extractExplicitTodos epochEnv initializeTimePatterns
          ([bullet] @ '' call Bob'' @ [LF] @ ''[X] done'' @ [LF] @ ''[ ] milk''))) =
     [(''call Bob'', Medium, 7 / 10, Pending), (''done'', Medium, 7 / 10, Completed),
      (''milk'', Medium, 7 / 10, Pending)]"
proof -
  let ?text = "[bullet] @ '' call Bob'' @ [LF] @ ''[X] done'' @ [LF] @ ''[ ] milk''"
  have items:
    "map Inl (filter looksLikeTodo
        (map (rx_remove_first False numberedMarker) (rx_match_all False numberedItem None ?text)))
      @ map Inl (filter looksLikeTodo
        (map (rx_remove_first False bulletMarker) (rx_match_all False bulletItem None ?text)))
      @ map Inr (rx_match_all True checkboxItem None ?text)
     = [Inl ''call Bob'', Inr ''[X] done'', Inr ''[ ] milk'']"
    by code_simp
  have h: "looksLikeTodo ''call Bob''" "startsWith (toLowerCase ''[X] done'') ''[x]''"
    "\<not> includes_js (toLowerCase ''[ ] milk'') ''[x]''"
    "rx_remove_first True checkboxMarker ''[X] done'' = ''done''"
    "rx_remove_first True checkboxMarker ''[ ] milk'' = ''milk''"
    by code_simp+
  from explicit_list_candidates [of epochEnv initializeTimePatterns ?text]
  have "list_all2
     (\<lambda>todo item. case item of
          Inl content \<Rightarrow>
            description todo = content \<and> priority_t todo = Medium
            \<and> confidence_t todo = 7 / 10 \<and> status todo = Pending
        | Inr checkbox \<Rightarrow>
            description todo = rx_remove_first True checkboxMarker checkbox
            \<and> priority_t todo = Medium \<and> confidence_t todo = 7 / 10
            \<and> (startsWith (toLowerCase checkbox) ''[x]'' \<longrightarrow> status todo = Completed)
            \<and> (\<not> includes_js (toLowerCase checkbox) ''[x]'' \<longrightarrow> status todo = Pending))
     (fst (extractExplicitTodos epochEnv initializeTimePatterns ?text))
     [Inl ''call Bob'', Inr ''[X] done'', Inr ''[ ] milk'']"
    unfolding items by blast
  with h show ?thesis
    by (auto simp: list_all2_Cons2 simp del: startsWith.simps includes_js.simps)
qed

text \<open>
  C8 as stated fails.  The checkbox item \<open>[ ] milk\<close> becomes a candidate although
  \<open>looksLikeTodo\<close> rejects its content.  And the unchecked item \<open>[ ] see [x] above\<close> gets
  status \<open>completed\<close>, because \<open>/\[x\]/i\<close> is tested against the whole item and not against
  its marker; the amended statement says nothing about the status of such an item.
\<close>

theorem checkbox_item_not_tested:
  "\<not> looksLikeTodo ''milk''
   \<and> map description (fst (extractExplicitTodos epochEnv initializeTimePatterns ''[ ] milk'')) = [''milk'']
   \<and> map status (fst (extractExplicitTodos epochEnv initializeTimePatterns ''[ ] see [x] above''))
       = [Completed]"
  by code_simp

section \<open>Case mapping, checked against the character codes\<close>

lemma withBit5_True:
  assumes "isUpper c"
  shows "(of_char (withBit5 True c) :: int) = of_char c + 32"
proof (cases c)
  case (Char b0 b1 b2 b3 b4 b5 b6 b7)
  with assms show ?thesis
    by (cases b0; cases b1; cases b2; cases b3; cases b4; cases b5; cases b6; cases b7;
        simp add: isUpper_def withBit5_def)
qed

lemma withBit5_False:
  assumes "isLower c"
  shows "(of_char (withBit5 False c) :: int) = of_char c - 32"
proof (cases c)
  case (Char b0 b1 b2 b3 b4 b5 b6 b7)
  with assms show ?thesis
    by (cases b0; cases b1; cases b2; cases b3; cases b4; cases b5; cases b6; cases b7;
        simp add: isLower_def withBit5_def)
qed

section \<open>Newsletter detection\<close>

text \<open>The flag and the confidence of \<open>detectNewsletter\<close> follow the stated formulas.\<close>

lemma detectNewsletter_flag:
  "isNewsletter_n (detectNewsletter subject body sender) =
     (calculateCategoryScore (categoryPatterns Newsletter)
        (toLowerCase subject) (toLowerCase body) (toLowerCase sender) > 5
      \<or> extractUnsubscribeLinks body \<noteq> [])"
  by (simp add: detectNewsletter_def Let_def)

lemma detectNewsletter_confidence:
  "confidence_n (detectNewsletter subject body sender) =
     min ((of_int (calculateCategoryScore (categoryPatterns Newsletter)
             (toLowerCase subject) (toLowerCase body) (toLowerCase sender)
           + (if extractUnsubscribeLinks body \<noteq> [] then 5 else 0)) :: rat) / 10) 1"
  by (simp add: detectNewsletter_def Let_def)

text \<open>A body that is exactly the \<open>href\<close> attribute of the specification's example.\<close>

lemma detectNewsletter_example:
  "detectNewsletter [] (''href='' @ [dq] @ ''https://x.com/unsubscribe?x=1'' @ [dq]) [] =
     \<lparr> isNewsletter_n = True, confidence_n = 9 / 10,
       unsubscribeLinks = [''https://x.com/unsubscribe?x=1''],
       senderReputation = UnknownReputation, frequency = UnknownFrequency \<rparr>"
  by code_simp

text \<open>
  C3 fails on the code.  In a one-line body with a link to the home page before the
  unsubscribe link, the lazy wildcard of the first pattern runs from the first \<open>href\<close>
  across both attributes, and the second pattern \<open>/href=["'](.*?)["']/\<close> then takes the
  first target of that match: \<open>unsubscribeLinks\<close> holds the home page, which contains none
  of the three words, and the unsubscribe address is missing.
\<close>

theorem unsubscribe_link_missed:
  "unsubscribeLinks (detectNewsletter []
      (''<a href='' @ [dq] @ ''https://x.com/home'' @ [dq] @ ''>Home</a> <a href='' @ [dq]
         @ ''https://x.com/unsubscribe?x=1'' @ [dq] @ ''>Unsubscribe</a>'') [])
     = [''https://x.com/home'']"
  by code_simp

section \<open>The empty email\<close>

text \<open>
  C4 fails on the code.  With an empty subject and body and the sender
  \<open>test@example.com\<close> every category scores 0; the stable sort leaves the first key,
  \<open>newsletter\<close>, in front, so the category is \<open>newsletter\<close> and \<open>isNewsletter\<close> is true.  The
  same happens with the body of the test fixture \<open>emptySubject\<close>.
\<close>

theorem empty_email_is_newsletter:
  "classifyEmail (JSString []) (JSString []) (JSString ''test@example.com'') =
     \<lparr> category = Newsletter, subcategories = [], confidence = 0, isNewsletter = True,
       priority = None, reasoning = ''Primary indicators: '' \<rparr>
   \<and> category (classifyEmail (JSString []) (JSString ''This email has no subject line.'')
        (JSString ''test@example.com'')) = Newsletter"
  by code_simp

section \<open>Two calls in succession\<close>

text \<open>
  C5 fails on the code for \<open>extractTodos\<close>.  The time patterns carry the \<open>g\<close> flag and live in
  the service instance, so \<open>exec\<close> leaves \<open>lastIndex\<close> behind.  The first call on a fresh
  instance finds the due date of \<open>Please review the report by Monday\<close>; the second call,
  on the instance as the first left it and with the same input, clock and configuration,
  finds none.
\<close>

theorem second_call_loses_due_date:
  "map (\<lambda>t. dueDate t = None)
     (todos (fst (extractTodos defaultConfig env initializeTimePatterns
        (JSString []) (JSString ''Please review the report by Monday'')))) = [False]
   \<and> map (\<lambda>t. dueDate t = None)
     (todos (fst (extractTodos defaultConfig env
        (snd (extractTodos defaultConfig env initializeTimePatterns
           (JSString []) (JSString ''Please review the report by Monday'')))
        (JSString []) (JSString ''Please review the report by Monday'')))) = [True]"
  by code_simp

section \<open>Deduplication\<close>

text \<open>
  C6 fails on the code.  A body of the three numbered items yields five todos under the
  default threshold: three from the sentences (which keep the digit of the next item and
  so have signatures of their own) and two of the three list items; only the third list
  item repeats a signature.
\<close>

theorem three_review_items_give_five_todos:
  "length (todos (fst (extractTodos defaultConfig env initializeTimePatterns (JSString [])
     (JSString (''1. Review the document'' @ [LF] @ ''2. Please review the document'' @ [LF]
        @ ''3. Review the attached document''))))) = 5"
  by code_simp

section \<open>Null and undefined input of extractTodos\<close>

text \<open>
  C7 fails on the code.  The template literal turns \<open>null\<close> and \<open>undefined\<close> into words, the
  \<open>try\<close> block completes, and the reasoning of the result does not contain \<open>failed\<close>; with a
  \<open>null\<close> subject and an actionable body the result even holds a todo.
\<close>

theorem null_input_is_not_a_failure:
  "fst (extractTodos defaultConfig env initializeTimePatterns JSNull JSUndefined) =
     \<lparr> todos = [], hasTodos = False, confidence_x = 0,
       reasoning_x = ''No actionable items detected in email content'' \<rparr>
   \<and> \<not> includes_js ''No actionable items detected in email content'' ''failed''
   \<and> map description (todos (fst (extractTodos defaultConfig env initializeTimePatterns JSNull
        (JSString ''Please review the report'')))) = [''null Please review the report'']"
  by code_simp

section \<open>Due dates\<close>

text \<open>
  The weekday rule of \<open>parseDateString\<close>: the result falls on the named weekday, between one
  and seven days after today.
\<close>

lemma next_weekday:
  assumes "0 \<le> i" "i < 7"
  shows "getDay (addDays d (if i - getDay d \<le> 0 then i - getDay d + 7 else i - getDay d)) = i
    \<and> 1 \<le> (if i - getDay d \<le> 0 then i - getDay d + 7 else i - getDay d)
    \<and> (if i - getDay d \<le> 0 then i - getDay d + 7 else i - getDay d) \<le> 7"
proof -
  have g: "0 \<le> getDay d" "getDay d < 7" by (simp_all add: getDay_def)
  have "dayNumber d + 4 = 7 * ((dayNumber d + 4) div 7) + getDay d"
    by (simp add: getDay_def)
  with assms g show ?thesis
    by (auto simp: getDay_def addDays_def) presburger+
qed

lemma monday_steps:
  "trim (toLowerCase ''Monday'') = ''monday''"
  "includes_js ''monday'' ''today'' = False"
  "includes_js ''monday'' ''tomorrow'' = False"
  "includes_js ''monday'' ''this week'' = False"
  "includes_js ''monday'' ''next week'' = False"
  "findDayName ''monday'' dayNames 0 = Some 1"
  by code_simp+

lemma parseDateString_monday:
  "parseDateString env ''Monday'' =
     Some (addDays (now env) (if 1 - getDay (now env) \<le> 0 then 1 - getDay (now env) + 7
                              else 1 - getDay (now env)))"
  by (simp add: parseDateString_def Let_def monday_steps del: includes_js.simps)

text \<open>
  C9 fails on the code.  The test's email (subject \<open>Submit by Monday\<close>, body
  \<open>Please submit your timesheet by Monday.\<close>) and the body alone yield no todo at all: no
  action keyword occurs and \<open>submit\<close> is not among the imperative verbs.  And a candidate
  text that contains \<open>by Monday\<close> gets no due date when an earlier candidate of the same
  call has moved \<open>lastIndex\<close> of the weekday pattern.
\<close>

theorem timesheet_by_monday_gives_no_todo:
  "todos (fst (extractTodos defaultConfig env initializeTimePatterns
     (JSString ''Submit by Monday'') (JSString ''Please submit your timesheet by Monday.''))) = []
   \<and> todos (fst (extractTodos defaultConfig env initializeTimePatterns
     (JSString []) (JSString ''Please submit your timesheet by Monday''))) = []
   \<and> map (\<lambda>t. (description t, dueDate t = None))
       (todos (fst (extractTodos defaultConfig env initializeTimePatterns (JSString [])
          (JSString ''Review the doc by Friday. Please call me by Monday'')))) =
       [(''Review the doc by Friday'', False), (''Please call me by Monday'', True)]"
  by code_simp

section \<open>Titles\<close>

text \<open>Capitalising adds at most one character, so a title has at most 61 characters.\<close>

lemma capitalize_length:
  "length (capitalize s) \<le> Suc (length s)"
  by (cases s) (simp_all add: toUpperCase_char_def)

lemma capitalize_length_plain:
  "(of_char c :: int) \<noteq> 223 \<Longrightarrow> length (capitalize (c # cs)) = Suc (length cs)"
  by (simp add: toUpperCase_char_def)

lemma generateTodoTitle_length:
  "length (generateTodoTitle content) \<le> 61"
proof -
  let ?t1 = "rx_remove_first True titlePrefix content"
  let ?t2 = "if length ?t1 > 60 then take 57 ?t1 @ ''...'' else ?t1"
  have "length ?t2 \<le> 60" by simp
  moreover have "generateTodoTitle content = capitalize ?t2"
    by (simp add: generateTodoTitle_def Let_def)
  ultimately show ?thesis using capitalize_length [of ?t2] by simp
qed

text \<open>
  C10 fails on the code.  The title is cut to 60 characters before its first character is
  upper-cased, and the upper-case form of U+00DF is the two characters \<open>SS\<close>: a checkbox
  item of 60 characters that starts with U+00DF gets a title of 61 characters.
\<close>

theorem sharp_s_title_has_61_characters:
  "map (\<lambda>t. length (title t))
     (todos (fst (extractTodos defaultConfig env initializeTimePatterns (JSString [])
        (JSString (''[ ] '' @ [CHR 0xDF] @ replicate 59 CHR ''a''))))) = [61]"
  by code_simp

end
